theory Spec2Isabelle
  imports Complex_Main "HOL-Library.Word" "HOL-Library.Signed_Division"
begin

section \<open>Element types\<close>

text \<open>
  The blocks of \<^verbatim>\<open>ConstArithmetic.cpp\<close> and \<^verbatim>\<open>Angle.cpp\<close> are class templates over an element
  type \<open>T\<close>. A template parameter is a HOL type variable here, together with the operators
  of \<open>T\<close> that the templates use, the record \<open>'a arith\<close> below. The fixed-width integers are
  words (\<open>int8_t\<close> and \<open>uint8_t\<close> are both \<open>8 word\<close>, read by \<open>sint\<close> and \<open>uint\<close>);
  \<open>float\<close> and \<open>double\<close> stay type variables \<open>'f\<close> and \<open>'d\<close>, whose operators the factory is
  given; \<open>std::complex<T>\<close> is the pair type.
\<close>

datatype 'a cplx = Cplx (real_of: 'a) (imag_of: 'a)

text \<open>
  A buffer of \<open>std::complex<T>\<close> is, in memory, the sequence of its scalar components, real
  part first: two scalar lanes for each element.
\<close>

definition scalar_lanes :: "'a cplx list \<Rightarrow> 'a list" where
  "scalar_lanes zs = concat (map (\<lambda>z. [real_of z, imag_of z]) zs)"

text \<open>
  What \<^verbatim>\<open>Pothos::DType\<close> tells the code: which C++ type the elements have, and the dimension.
  \<open>Unspecified\<close> and \<open>Custom\<close> are the descriptors that name no numeric type.
\<close>

datatype base_type =
  Int8 | Int16 | Int32 | Int64 | UInt8 | UInt16 | UInt32 | UInt64 | Float32 | Float64

datatype elem_type = Unspecified | Custom | Scalar base_type | ComplexOf base_type

record DType =
  elemType :: elem_type
  dimension :: nat

text \<open>\<^verbatim>\<open>Pothos::DType(typeid(type), dimension)\<close>; the dimension defaults to 1.\<close>

definition DType_of :: "elem_type \<Rightarrow> nat \<Rightarrow> DType" where
  "DType_of t n = \<lparr>elemType = t, dimension = n\<rparr>"

text \<open>\<^verbatim>\<open>Pothos::DType::fromDType(dtype, dim)\<close>: the same element type at another dimension.\<close>

definition fromDType :: "DType \<Rightarrow> nat \<Rightarrow> DType" where
  "fromDType dtype n = dtype\<lparr>dimension := n\<rparr>"


section \<open>Kernels\<close>

text \<open>
  What C++ leaves undefined is a fault of the model: a call through a null function pointer,
  an access outside a buffer, a division without a defined result.
\<close>

datatype fault = NullPointer | OutOfBounds | UndefinedDivision

definition load :: "'a list \<Rightarrow> nat \<Rightarrow> fault + 'a" where
  "load buf i = (if i < length buf then Inr (buf ! i) else Inl OutOfBounds)"

definition store :: "'a list \<Rightarrow> nat \<Rightarrow> 'a \<Rightarrow> fault + 'a list" where
  "store buf i v = (if i < length buf then Inr (buf[i := v]) else Inl OutOfBounds)"

text \<open>\<^verbatim>\<open>for (size_t i = 0; i < num; i++) body\<close>, from the current \<open>i\<close>.\<close>

function for_loop :: "nat \<Rightarrow> nat \<Rightarrow> (nat \<Rightarrow> 's \<Rightarrow> fault + 's) \<Rightarrow> 's \<Rightarrow> fault + 's" where
  "for_loop i num body s =
     (if i < num
      then (case body i s of Inl e \<Rightarrow> Inl e | Inr s' \<Rightarrow> for_loop (i + 1) num body s')
      else Inr s)"
  by pat_completeness auto
termination
  by (relation "measure (\<lambda>(i, num, body, s). num - i)") auto

declare for_loop.simps [simp del]

text \<open>The loop body \<^verbatim>\<open>out[i] = f(in[i])\<close>.\<close>

definition lane :: "'a list \<Rightarrow> ('a \<Rightarrow> fault + 'b) \<Rightarrow> nat \<Rightarrow> 'b list \<Rightarrow> fault + 'b list" where
  "lane inp f i out =
     (case load inp i of
        Inl e \<Rightarrow> Inl e
      | Inr x \<Rightarrow> (case f x of Inl e \<Rightarrow> Inl e | Inr y \<Rightarrow> store out i y))"

text \<open>
  \<^verbatim>\<open>void(*)(const T*, const T&, T*, size_t)\<close>: a function pointer, \<open>None\<close> when null. The kernel
  returns the output buffer as it has written it.
\<close>

type_synonym 'a ConstArithmeticFcn =
  "('a list \<Rightarrow> 'a \<Rightarrow> 'a list \<Rightarrow> nat \<Rightarrow> fault + 'a list) option"

text \<open>The call \<^verbatim>\<open>_func(in, k, out, num)\<close> through the pointer.\<close>

definition invoke ::
  "'a ConstArithmeticFcn \<Rightarrow> 'a list \<Rightarrow> 'a \<Rightarrow> 'a list \<Rightarrow> nat \<Rightarrow> fault + 'a list" where
  "invoke fp inp k out num =
     (case fp of None \<Rightarrow> Inl NullPointer | Some f \<Rightarrow> f inp k out num)"

text \<open>
  The operators of an element type \<open>T\<close>: \<open>T(0)\<close>, \<open>+\<close>, \<open>-\<close>, \<open>*\<close> and \<open>/\<close>. The first four
  always give a value; \<open>/\<close> has operands without a defined quotient, where it is a fault.
\<close>

record 'a arith =
  op_zero :: 'a
  op_plus :: "'a \<Rightarrow> 'a \<Rightarrow> 'a"
  op_minus :: "'a \<Rightarrow> 'a \<Rightarrow> 'a"
  op_times :: "'a \<Rightarrow> 'a \<Rightarrow> 'a"
  op_divide :: "'a \<Rightarrow> 'a \<Rightarrow> fault + 'a"

text \<open>
  The getters of the build without \<^verbatim>\<open>POTHOS_XSIMD\<close>, each at the element type whose
  operators are \<open>T\<close>.
\<close>

definition getXPlusKFcn :: "'a arith \<Rightarrow> 'a ConstArithmeticFcn" where
  "getXPlusKFcn T =
     Some (\<lambda>inp k out num. for_loop 0 num (lane inp (\<lambda>x. Inr (op_plus T x k))) out)"

definition getXSubKFcn :: "'a arith \<Rightarrow> 'a ConstArithmeticFcn" where
  "getXSubKFcn T =
     Some (\<lambda>inp k out num. for_loop 0 num (lane inp (\<lambda>x. Inr (op_minus T x k))) out)"

definition getKSubXFcn :: "'a arith \<Rightarrow> 'a ConstArithmeticFcn" where
  "getKSubXFcn T =
     Some (\<lambda>inp k out num. for_loop 0 num (lane inp (\<lambda>x. Inr (op_minus T k x))) out)"

definition getXMultKFcn :: "'a arith \<Rightarrow> 'a ConstArithmeticFcn" where
  "getXMultKFcn T =
     Some (\<lambda>inp k out num. for_loop 0 num (lane inp (\<lambda>x. Inr (op_times T x k))) out)"

definition getXDivKFcn :: "'a arith \<Rightarrow> 'a ConstArithmeticFcn" where
  "getXDivKFcn T =
     Some (\<lambda>inp k out num. for_loop 0 num (lane inp (\<lambda>x. op_divide T x k)) out)"

definition getKDivXFcn :: "'a arith \<Rightarrow> 'a ConstArithmeticFcn" where
  "getKDivXFcn T =
     Some (\<lambda>inp k out num. for_loop 0 num (lane inp (\<lambda>x. op_divide T k x)) out)"

text \<open>
  \<^verbatim>\<open>x / k\<close> on the signed integer types. Operands narrower than \<open>int\<close> (32 bits) are promoted
  to \<open>int\<close> first; the quotient truncates towards zero; it is undefined when the divisor is
  zero and when the quotient does not fit the type the division is done in, which only
  \<open>INT_MIN / -1\<close> at 32 and 64 bits reaches. The assignment to \<open>out[i]\<close> narrows the promoted
  quotient to the element type.
\<close>

definition int_quot :: "'a::len word \<Rightarrow> 'a word \<Rightarrow> fault + 'a word" where
  "int_quot x k =
     (let w = max 32 LENGTH('a);
          q = sint x sdiv sint k
      in if k = 0 then Inl UndefinedDivision
         else if 2 ^ (w - 1) \<le> q then Inl UndefinedDivision
         else Inr (word_of_int q))"

text \<open>
  The one pair with a non-zero divisor and no quotient: the lowest value of a signed type that
  promotion does not widen, divided by \<open>-1\<close>.
\<close>

definition quotient_overflows :: "'a::len word \<Rightarrow> 'a word \<Rightarrow> bool" where
  "quotient_overflows x k =
     (32 \<le> LENGTH('a) \<and> sint x = - (2 ^ (LENGTH('a) - 1)) \<and> sint k = - 1)"

text \<open>\<^verbatim>\<open>x / k\<close> on the unsigned integer types: undefined only for a zero divisor.\<close>

definition uint_quot :: "'a::len word \<Rightarrow> 'a word \<Rightarrow> fault + 'a word" where
  "uint_quot x k = (if k = 0 then Inl UndefinedDivision else Inr (x div k))"

text \<open>
  The operators of \<open>int8_t\<close> to \<open>int64_t\<close> and of \<open>uint8_t\<close> to \<open>uint64_t\<close>: sums, differences
  and products wrap around, as the compiled loops do. (For \<open>int32_t\<close> and \<open>int64_t\<close> the
  language leaves a sum, difference or product outside the type undefined; no claim below
  rests on such a value.)
\<close>

definition signed_int :: "'a::len word arith" where
  "signed_int =
     \<lparr>op_zero = 0, op_plus = (+), op_minus = (-), op_times = (*), op_divide = int_quot\<rparr>"

definition unsigned_int :: "'a::len word arith" where
  "unsigned_int =
     \<lparr>op_zero = 0, op_plus = (+), op_minus = (-), op_times = (*), op_divide = uint_quot\<rparr>"

text \<open>
  The operators of \<open>std::complex<T>\<close> from those of \<open>T\<close>: the sum and the difference by
  components, the product \<open>(ac - bd, ad + bc)\<close>. The quotient is the standard library's and is
  taken as it is given.
\<close>

definition std_complex ::
  "'a arith \<Rightarrow> ('a cplx \<Rightarrow> 'a cplx \<Rightarrow> fault + 'a cplx) \<Rightarrow> 'a cplx arith" where
  "std_complex T cquot =
     \<lparr>op_zero = Cplx (op_zero T) (op_zero T),
      op_plus = (\<lambda>x y. Cplx (op_plus T (real_of x) (real_of y))
                          (op_plus T (imag_of x) (imag_of y))),
      op_minus = (\<lambda>x y. Cplx (op_minus T (real_of x) (real_of y))
                           (op_minus T (imag_of x) (imag_of y))),
      op_times = (\<lambda>x y. Cplx (op_minus T (op_times T (real_of x) (real_of y))
                                       (op_times T (imag_of x) (imag_of y)))
                           (op_plus T (op_times T (real_of x) (imag_of y))
                                      (op_times T (imag_of x) (real_of y)))),
      op_divide = cquot\<rparr>"

text \<open>
  \<^verbatim>\<open>getAngleFcn<InType, OutType>()\<close> of \<^verbatim>\<open>Angle.cpp\<close>. \<open>getAngle\<close> comes from
  \<^verbatim>\<open>FxptHelpers.hpp\<close>, which is not among the sources: it is a parameter.
\<close>

type_synonym ('i, 'o) AngleFcn = "('i list \<Rightarrow> 'o list \<Rightarrow> nat \<Rightarrow> fault + 'o list) option"

definition getAngleFcn :: "('i \<Rightarrow> 'o) \<Rightarrow> ('i, 'o) AngleFcn" where
  "getAngleFcn getAngle =
     Some (\<lambda>inp out num. for_loop 0 num (lane inp (\<lambda>x. Inr (getAngle x))) out)"

text \<open>The call \<^verbatim>\<open>_fcn(in, out, N)\<close> through the pointer.\<close>

definition invoke_angle ::
  "('i, 'o) AngleFcn \<Rightarrow> 'i list \<Rightarrow> 'o list \<Rightarrow> nat \<Rightarrow> fault + 'o list" where
  "invoke_angle fp inp out num =
     (case fp of None \<Rightarrow> Inl NullPointer | Some f \<Rightarrow> f inp out num)"


section \<open>Ports and the block base class\<close>

text \<open>
  The part of \<^verbatim>\<open>Pothos::InputPort\<close> and \<^verbatim>\<open>Pothos::OutputPort\<close> the blocks use: the type
  descriptor, the buffer as an array of \<open>T\<close>, the number of elements available, and the
  running count of elements consumed or produced.
\<close>

record 'a InputPort =
  in_dtype :: DType
  in_buffer :: "'a list"
  in_elements :: nat
  in_consumed :: nat

record 'a OutputPort =
  out_dtype :: DType
  out_buffer :: "'a list"
  out_elements :: nat
  out_produced :: nat

text \<open>
  Every call a block makes on the framework or through its kernel pointer is recorded, in the
  order the block makes it. \<open>CallFunc k n\<close> is \<^verbatim>\<open>_func(buffIn, _constant, buffOut, n)\<close> with
  the constant \<open>k\<close> it passes, \<open>CallFcn n\<close> is \<^verbatim>\<open>_fcn(in, out, n)\<close>.
\<close>

datatype 'v call =
    SetupInput nat DType
  | SetupOutput nat DType
  | RegisterCall string
  | RegisterProbe string
  | RegisterSignal string
  | EmitSignal string 'v
  | InputBuffer nat
  | OutputBuffer nat
  | CallFunc 'v nat
  | CallFcn nat
  | Consume nat nat
  | Produce nat nat

text \<open>\<^verbatim>\<open>Pothos::Block\<close>, with its port 0 on either side.\<close>

record ('i, 'o, 'v) Block =
  input0 :: "'i InputPort"
  output0 :: "'o OutputPort"
  calls :: "'v call list"

definition called :: "'v call \<Rightarrow> ('i, 'o, 'v, 'z) Block_scheme \<Rightarrow> ('i, 'o, 'v, 'z) Block_scheme" where
  "called c b = b\<lparr>calls := calls b @ [c]\<rparr>"

definition setupInput ::
  "nat \<Rightarrow> DType \<Rightarrow> ('i, 'o, 'v, 'z) Block_scheme \<Rightarrow> ('i, 'o, 'v, 'z) Block_scheme" where
  "setupInput idx dtype b =
     called (SetupInput idx dtype)
       (b\<lparr>input0 := \<lparr>in_dtype = dtype, in_buffer = [], in_elements = 0, in_consumed = 0\<rparr>\<rparr>)"

definition setupOutput ::
  "nat \<Rightarrow> DType \<Rightarrow> ('i, 'o, 'v, 'z) Block_scheme \<Rightarrow> ('i, 'o, 'v, 'z) Block_scheme" where
  "setupOutput idx dtype b =
     called (SetupOutput idx dtype)
       (b\<lparr>output0 := \<lparr>out_dtype = dtype, out_buffer = [], out_elements = 0, out_produced = 0\<rparr>\<rparr>)"

definition emitSignal ::
  "string \<Rightarrow> 'v \<Rightarrow> ('i, 'o, 'v, 'z) Block_scheme \<Rightarrow> ('i, 'o, 'v, 'z) Block_scheme" where
  "emitSignal name v b = called (EmitSignal name v) b"

text \<open>\<^verbatim>\<open>workInfo().minElements\<close>: the least number of elements available on any port.\<close>

definition minElements :: "('i, 'o, 'v, 'z) Block_scheme \<Rightarrow> nat" where
  "minElements b = min (in_elements (input0 b)) (out_elements (output0 b))"

definition consume :: "nat \<Rightarrow> ('i, 'o, 'v, 'z) Block_scheme \<Rightarrow> ('i, 'o, 'v, 'z) Block_scheme" where
  "consume n b =
     called (Consume 0 n)
       (b\<lparr>input0 := (input0 b)\<lparr>in_consumed := in_consumed (input0 b) + n\<rparr>\<rparr>)"

definition produce :: "nat \<Rightarrow> ('i, 'o, 'v, 'z) Block_scheme \<Rightarrow> ('i, 'o, 'v, 'z) Block_scheme" where
  "produce n b =
     called (Produce 0 n)
       (b\<lparr>output0 := (output0 b)\<lparr>out_produced := out_produced (output0 b) + n\<rparr>\<rparr>)"

text \<open>The kernel has written through the pointer \<^verbatim>\<open>output->buffer()\<close> gave.\<close>

definition written :: "'o list \<Rightarrow> ('i, 'o, 'v, 'z) Block_scheme \<Rightarrow> ('i, 'o, 'v, 'z) Block_scheme" where
  "written buf b = b\<lparr>output0 := (output0 b)\<lparr>out_buffer := buf\<rparr>\<rparr>"

text \<open>A block before its constructor body has run: no port set up, no call made.\<close>

definition unset_input :: "'a InputPort" where
  "unset_input =
     \<lparr>in_dtype = DType_of Unspecified 1, in_buffer = [], in_elements = 0, in_consumed = 0\<rparr>"

definition unset_output :: "'a OutputPort" where
  "unset_output =
     \<lparr>out_dtype = DType_of Unspecified 1, out_buffer = [], out_elements = 0, out_produced = 0\<rparr>"


section \<open>The const-arithmetic block\<close>

text \<open>
  \<^verbatim>\<open>class ConstArithmetic: public Pothos::Block\<close> with its members \<^verbatim>\<open>_constant\<close> and \<^verbatim>\<open>_func\<close>.
  The third member, \<^verbatim>\<open>_position\<close>, is never initialised, read or written and is left out.
\<close>

record 'a ConstArithmetic = "('a, 'a, 'a) Block" +
  m_constant :: 'a
  m_func :: "'a ConstArithmeticFcn"

text \<open>
  \<^verbatim>\<open>T constant() const\<close>, the getter, returning the value and the block it leaves
  (\<open>constant\<close> is a reserved word here).
\<close>

definition getConstant :: "'a ConstArithmetic \<Rightarrow> 'a \<times> 'a ConstArithmetic" where
  "getConstant b = (m_constant b, b)"

definition setConstant :: "'a \<Rightarrow> 'a ConstArithmetic \<Rightarrow> 'a ConstArithmetic" where
  "setConstant c b = emitSignal ''constantChanged'' c (b\<lparr>m_constant := c\<rparr>)"

text \<open>
  The constructor; \<open>tid\<close> is \<^verbatim>\<open>typeid(T)\<close>, \<open>T\<close> the operators. The member initialisers set
  \<^verbatim>\<open>_constant(0)\<close> and \<^verbatim>\<open>_func(func)\<close>, the body sets up the ports, registers the calls, the
  probe and the signal, and ends in the setter.
\<close>

definition ConstArithmetic_new ::
  "elem_type \<Rightarrow> 'a arith \<Rightarrow> 'a ConstArithmeticFcn \<Rightarrow> 'a \<Rightarrow> nat \<Rightarrow> 'a ConstArithmetic" where
  "ConstArithmetic_new tid T func c dimension' =
     (let this = \<lparr>input0 = unset_input, output0 = unset_output, calls = [],
                  m_constant = op_zero T, m_func = func\<rparr>;
          dtype = DType_of tid dimension';
          this = setupInput 0 dtype this;
          this = setupOutput 0 dtype this;
          this = called (RegisterCall ''constant'') this;
          this = called (RegisterCall ''setConstant'') this;
          this = called (RegisterProbe ''constant'') this;
          this = called (RegisterSignal ''constantChanged'') this
      in setConstant c this)"

text \<open>
  \<^verbatim>\<open>work()\<close>. A kernel pass that faults ends the step with the fault. Counts are natural
  numbers: the product \<^verbatim>\<open>elems*dimension\<close> counts elements that lie in a buffer, so it stays
  below the range of \<^verbatim>\<open>size_t\<close>.
\<close>

definition work :: "'a ConstArithmetic \<Rightarrow> fault + 'a ConstArithmetic" where
  "work b =
     (let elems = minElements b in
      if 0 = elems then Inr b
      else
        let input = input0 b;
            output = output0 b;
            buffIn = in_buffer input;
            b = called (InputBuffer 0) b;
            buffOut = out_buffer output;
            b = called (OutputBuffer 0) b;
            num = elems * dimension (in_dtype input);
            b = called (CallFunc (m_constant b) num) b
        in case invoke (m_func b) buffIn (m_constant b) buffOut num of
             Inl e \<Rightarrow> Inl e
           | Inr buf \<Rightarrow> Inr (produce elems (consume elems (written buf b))))"


section \<open>The angle block\<close>

record ('i, 'o) Angle = "('i, 'o, unit) Block" +
  m_fcn :: "('i, 'o) AngleFcn"

text \<open>
  The constructor of \<^verbatim>\<open>Angle<InType, OutType>\<close>; \<open>tin\<close> and \<open>tout\<close> are the two \<^verbatim>\<open>typeid\<close>s,
  \<open>getAngle\<close> the overload of \<^verbatim>\<open>FxptHelpers.hpp\<close> the kernel is compiled with.
\<close>

definition Angle_new ::
  "elem_type \<Rightarrow> elem_type \<Rightarrow> ('i \<Rightarrow> 'o) \<Rightarrow> nat \<Rightarrow> ('i, 'o) Angle" where
  "Angle_new tin tout getAngle dimension' =
     (let this = \<lparr>input0 = unset_input, output0 = unset_output, calls = [],
                  m_fcn = getAngleFcn getAngle\<rparr>;
          this = setupInput 0 (DType_of tin dimension') this;
          this = setupOutput 0 (DType_of tout dimension') this
      in this)"

text \<open>\<^verbatim>\<open>work()\<close> of the angle block.\<close>

definition Angle_work :: "('i, 'o) Angle \<Rightarrow> fault + ('i, 'o) Angle" where
  "Angle_work b =
     (let elems = minElements b in
      if elems = 0 then Inr b
      else
        let inPort = input0 b;
            outPort = output0 b;
            inp = in_buffer inPort;
            b = called (InputBuffer 0) b;
            out = out_buffer outPort;
            b = called (OutputBuffer 0) b;
            N = elems * dimension (in_dtype inPort);
            b = called (CallFcn N) b
        in case invoke_angle (m_fcn b) inp out N of
             Inl e \<Rightarrow> Inl e
           | Inr buf \<Rightarrow> Inr (produce elems (consume elems (written buf b))))"


section \<open>The factories\<close>

text \<open>
  The two exceptions a factory call can end in. \<open>InvalidArgumentException\<close> holds the name of
  the factory, the descriptor its message prints with \<^verbatim>\<open>dtype.toString()\<close>, the operation
  where the message has one, and the reason. \<open>ObjectConvertError\<close> is what
  \<^verbatim>\<open>Pothos::Object::convert\<close> throws.
\<close>

datatype exception =
    InvalidArgumentException string DType "string option" string
  | ObjectConvertError

text \<open>
  What an instantiation at \<open>T\<close> and at \<open>std::complex<T>\<close> takes from the libraries:
  \<^verbatim>\<open>constant.convert<type>()\<close> of the framework at both types, \<open>None\<close> when it throws, and the
  \<^verbatim>\<open>operator/\<close> of \<open>std::complex<T>\<close>. \<open>'obj\<close> is \<^verbatim>\<open>Pothos::Object\<close>. The operators of \<open>float\<close>
  and \<open>double\<close> come with the libraries as well.
\<close>

record ('obj, 'a) instance_of =
  convert :: "'obj \<Rightarrow> 'a option"
  convert_complex :: "'obj \<Rightarrow> 'a cplx option"
  complex_quot :: "'a cplx \<Rightarrow> 'a cplx \<Rightarrow> fault + 'a cplx"

record ('obj, 'f, 'd) libraries =
  for_int8 :: "('obj, 8 word) instance_of"
  for_int16 :: "('obj, 16 word) instance_of"
  for_int32 :: "('obj, 32 word) instance_of"
  for_int64 :: "('obj, 64 word) instance_of"
  for_uint8 :: "('obj, 8 word) instance_of"
  for_uint16 :: "('obj, 16 word) instance_of"
  for_uint32 :: "('obj, 32 word) instance_of"
  for_uint64 :: "('obj, 64 word) instance_of"
  for_float :: "('obj, 'f) instance_of"
  for_double :: "('obj, 'd) instance_of"
  float_arith :: "'f arith"
  double_arith :: "'d arith"

text \<open>The \<^verbatim>\<open>Pothos::Block*\<close> that \<^verbatim>\<open>makeConstArithmetic\<close> returns: one of twenty instantiations.\<close>

datatype ('f, 'd) ConstArithmetic_ptr =
    ConstArithmetic_int8 "(8 word) ConstArithmetic"
  | ConstArithmetic_complex_int8 "(8 word) cplx ConstArithmetic"
  | ConstArithmetic_int16 "(16 word) ConstArithmetic"
  | ConstArithmetic_complex_int16 "(16 word) cplx ConstArithmetic"
  | ConstArithmetic_int32 "(32 word) ConstArithmetic"
  | ConstArithmetic_complex_int32 "(32 word) cplx ConstArithmetic"
  | ConstArithmetic_int64 "(64 word) ConstArithmetic"
  | ConstArithmetic_complex_int64 "(64 word) cplx ConstArithmetic"
  | ConstArithmetic_uint8 "(8 word) ConstArithmetic"
  | ConstArithmetic_complex_uint8 "(8 word) cplx ConstArithmetic"
  | ConstArithmetic_uint16 "(16 word) ConstArithmetic"
  | ConstArithmetic_complex_uint16 "(16 word) cplx ConstArithmetic"
  | ConstArithmetic_uint32 "(32 word) ConstArithmetic"
  | ConstArithmetic_complex_uint32 "(32 word) cplx ConstArithmetic"
  | ConstArithmetic_uint64 "(64 word) ConstArithmetic"
  | ConstArithmetic_complex_uint64 "(64 word) cplx ConstArithmetic"
  | ConstArithmetic_float "'f ConstArithmetic"
  | ConstArithmetic_complex_float "'f cplx ConstArithmetic"
  | ConstArithmetic_double "'d ConstArithmetic"
  | ConstArithmetic_complex_double "'d cplx ConstArithmetic"

text \<open>A chain of \<^verbatim>\<open>if (...) return ...;\<close> statements: the first that returns decides.\<close>

fun first_return :: "'r option list \<Rightarrow> 'r option" where
  "first_return [] = None"
| "first_return (Some r # rest) = Some r"
| "first_return (None # rest) = first_return rest"

text \<open>
  The macro \<^verbatim>\<open>ifTypeDeclareFactory__(type, opKey, func)\<close>: \<open>None\<close> when the condition is false
  and control passes on, otherwise what the \<^verbatim>\<open>return new ...\<close> statement ends in. The
  argument \<^verbatim>\<open>constant.convert<type>()\<close> is evaluated before the constructor is entered. (A
  name cannot end in an underscore here: the macros with one and two underscores take the
  suffixes \<open>_type\<close> and \<open>_type_op\<close>, the one of \<^verbatim>\<open>Angle.cpp\<close> the suffix \<open>_in_out\<close>.)
\<close>

definition ifTypeDeclareFactory_type_op ::
  "DType \<Rightarrow> string \<Rightarrow> 'obj \<Rightarrow> elem_type \<Rightarrow> 'a arith \<Rightarrow> ('obj \<Rightarrow> 'a option) \<Rightarrow> string \<Rightarrow>
   'a ConstArithmeticFcn \<Rightarrow> (exception + 'a ConstArithmetic) option" where
  "ifTypeDeclareFactory_type_op dtype operation c type T conv opKey func =
     (if fromDType dtype 1 = DType_of type 1 \<and> opKey = operation
      then Some (case conv c of
                   None \<Rightarrow> Inl ObjectConvertError
                 | Some k \<Rightarrow> Inr (ConstArithmetic_new type T func k (dimension dtype)))
      else None)"

definition ifTypeDeclareFactory_type ::
  "DType \<Rightarrow> string \<Rightarrow> 'obj \<Rightarrow> elem_type \<Rightarrow> 'a arith \<Rightarrow> ('obj \<Rightarrow> 'a option) \<Rightarrow>
   (exception + 'a ConstArithmetic) option" where
  "ifTypeDeclareFactory_type dtype operation c type T conv =
     first_return
       [ifTypeDeclareFactory_type_op dtype operation c type T conv ''X+K'' (getXPlusKFcn T),
        ifTypeDeclareFactory_type_op dtype operation c type T conv ''X-K'' (getXSubKFcn T),
        ifTypeDeclareFactory_type_op dtype operation c type T conv ''K-X'' (getKSubXFcn T),
        ifTypeDeclareFactory_type_op dtype operation c type T conv ''X*K'' (getXMultKFcn T),
        ifTypeDeclareFactory_type_op dtype operation c type T conv ''X/K'' (getXDivKFcn T),
        ifTypeDeclareFactory_type_op dtype operation c type T conv ''K/X'' (getKDivXFcn T)]"

text \<open>
  \<^verbatim>\<open>ifTypeDeclareFactory(type)\<close>: the six operations at \<open>type\<close>, then at
  \<open>std::complex<type>\<close>. \<open>up\<close> and \<open>upc\<close> are the conversions of the new block's address to
  \<^verbatim>\<open>Pothos::Block*\<close>.
\<close>

definition ifTypeDeclareFactory ::
  "DType \<Rightarrow> string \<Rightarrow> 'obj \<Rightarrow> base_type \<Rightarrow> 'a arith \<Rightarrow> ('obj, 'a) instance_of \<Rightarrow>
   ('a ConstArithmetic \<Rightarrow> 'p) \<Rightarrow> ('a cplx ConstArithmetic \<Rightarrow> 'p) \<Rightarrow>
   (exception + 'p) option" where
  "ifTypeDeclareFactory dtype operation c type T inst up upc =
     first_return
       [map_option (map_sum id up)
          (ifTypeDeclareFactory_type dtype operation c (Scalar type) T (convert inst)),
        map_option (map_sum id upc)
          (ifTypeDeclareFactory_type dtype operation c (ComplexOf type)
             (std_complex T (complex_quot inst)) (convert_complex inst))]"

definition makeConstArithmetic ::
  "('obj, 'f, 'd) libraries \<Rightarrow> DType \<Rightarrow> string \<Rightarrow> 'obj \<Rightarrow>
   exception + ('f, 'd) ConstArithmetic_ptr" where
  "makeConstArithmetic lib dtype operation c =
     (case first_return
         [ifTypeDeclareFactory dtype operation c Int8 signed_int (for_int8 lib)
            ConstArithmetic_int8 ConstArithmetic_complex_int8,
          ifTypeDeclareFactory dtype operation c Int16 signed_int (for_int16 lib)
            ConstArithmetic_int16 ConstArithmetic_complex_int16,
          ifTypeDeclareFactory dtype operation c Int32 signed_int (for_int32 lib)
            ConstArithmetic_int32 ConstArithmetic_complex_int32,
          ifTypeDeclareFactory dtype operation c Int64 signed_int (for_int64 lib)
            ConstArithmetic_int64 ConstArithmetic_complex_int64,
          ifTypeDeclareFactory dtype operation c UInt8 unsigned_int (for_uint8 lib)
            ConstArithmetic_uint8 ConstArithmetic_complex_uint8,
          ifTypeDeclareFactory dtype operation c UInt16 unsigned_int (for_uint16 lib)
            ConstArithmetic_uint16 ConstArithmetic_complex_uint16,
          ifTypeDeclareFactory dtype operation c UInt32 unsigned_int (for_uint32 lib)
            ConstArithmetic_uint32 ConstArithmetic_complex_uint32,
          ifTypeDeclareFactory dtype operation c UInt64 unsigned_int (for_uint64 lib)
            ConstArithmetic_uint64 ConstArithmetic_complex_uint64,
          ifTypeDeclareFactory dtype operation c Float32 (float_arith lib) (for_float lib)
            ConstArithmetic_float ConstArithmetic_complex_float,
          ifTypeDeclareFactory dtype operation c Float64 (double_arith lib) (for_double lib)
            ConstArithmetic_double ConstArithmetic_complex_double]
      of Some r \<Rightarrow> r
       | None \<Rightarrow>
           Inl (InvalidArgumentException ''makeConstArithmetic'' dtype (Some operation)
                  ''unsupported args''))"

text \<open>
  \<^verbatim>\<open>angleFactory\<close> of \<^verbatim>\<open>Angle.cpp\<close>, with the \<^verbatim>\<open>getAngle\<close> overloads of \<^verbatim>\<open>FxptHelpers.hpp\<close> as
  the record \<open>hlp\<close>. Its two macros carry the names of the ones above and are prefixed.
\<close>

record ('f, 'd) FxptHelpers =
  getAngle_double :: "'d cplx \<Rightarrow> 'd"
  getAngle_float :: "'f cplx \<Rightarrow> 'f"
  getAngle_int64 :: "(64 word) cplx \<Rightarrow> 64 word"
  getAngle_int32 :: "(32 word) cplx \<Rightarrow> 32 word"
  getAngle_int16 :: "(16 word) cplx \<Rightarrow> 16 word"
  getAngle_int8 :: "(8 word) cplx \<Rightarrow> 8 word"

datatype ('f, 'd) Angle_ptr =
    Angle_double "('d cplx, 'd) Angle"
  | Angle_float "('f cplx, 'f) Angle"
  | Angle_int64 "((64 word) cplx, 64 word) Angle"
  | Angle_int32 "((32 word) cplx, 32 word) Angle"
  | Angle_int16 "((16 word) cplx, 16 word) Angle"
  | Angle_int8 "((8 word) cplx, 8 word) Angle"

definition Angle_ifTypeDeclareFactory_in_out ::
  "DType \<Rightarrow> elem_type \<Rightarrow> elem_type \<Rightarrow> ('i \<Rightarrow> 'o) \<Rightarrow> (('i, 'o) Angle \<Rightarrow> 'p) \<Rightarrow> 'p option" where
  "Angle_ifTypeDeclareFactory_in_out dtype intype outtype getAngle up =
     (if fromDType dtype 1 = DType_of intype 1
      then Some (up (Angle_new intype outtype getAngle (dimension dtype)))
      else None)"

definition Angle_ifTypeDeclareFactory ::
  "DType \<Rightarrow> base_type \<Rightarrow> ('a cplx \<Rightarrow> 'a) \<Rightarrow> (('a cplx, 'a) Angle \<Rightarrow> 'p) \<Rightarrow> 'p option" where
  "Angle_ifTypeDeclareFactory dtype type getAngle up =
     Angle_ifTypeDeclareFactory_in_out dtype (ComplexOf type) (Scalar type) getAngle up"

definition angleFactory ::
  "('f, 'd) FxptHelpers \<Rightarrow> DType \<Rightarrow> exception + ('f, 'd) Angle_ptr" where
  "angleFactory hlp dtype =
     (case first_return
         [Angle_ifTypeDeclareFactory dtype Float64 (getAngle_double hlp) Angle_double,
          Angle_ifTypeDeclareFactory dtype Float32 (getAngle_float hlp) Angle_float,
          Angle_ifTypeDeclareFactory dtype Int64 (getAngle_int64 hlp) Angle_int64,
          Angle_ifTypeDeclareFactory dtype Int32 (getAngle_int32 hlp) Angle_int32,
          Angle_ifTypeDeclareFactory dtype Int16 (getAngle_int16 hlp) Angle_int16,
          Angle_ifTypeDeclareFactory dtype Int8 (getAngle_int8 hlp) Angle_int8]
      of Some r \<Rightarrow> Inr r
       | None \<Rightarrow> Inl (InvalidArgumentException ''angleFactory'' dtype None ''unsupported type''))"


section \<open>What the claims speak of\<close>

text \<open>
  The six operation strings of the \<^verbatim>\<open>|option\<close> lines of the block description, and the types
  either factory has a branch for: every numeric type for \<^verbatim>\<open>makeConstArithmetic\<close>, the complex
  types over \<open>double\<close>, \<open>float\<close> and the signed integers for \<^verbatim>\<open>angleFactory\<close>.
\<close>

definition operations :: "string list" where
  "operations = [''X+K'', ''X-K'', ''K-X'', ''X*K'', ''X/K'', ''K/X'']"

fun numeric :: "elem_type \<Rightarrow> bool" where
  "numeric (Scalar t) = True"
| "numeric (ComplexOf t) = True"
| "numeric t = False"

definition advertised :: "elem_type \<Rightarrow> string \<Rightarrow> bool" where
  "advertised t operation = (numeric t \<and> operation \<in> set operations)"

definition Angle_advertised :: "elem_type \<Rightarrow> bool" where
  "Angle_advertised t =
     (t \<in> set (map ComplexOf [Float64, Float32, Int64, Int32, Int16, Int8]))"

text \<open>The calls that raise a signal.\<close>

fun is_signal :: "'v call \<Rightarrow> bool" where
  "is_signal (EmitSignal name v) = True"
| "is_signal c = False"

text \<open>The constant converts to the C++ type of the descriptor.\<close>

fun converts :: "('obj, 'f, 'd) libraries \<Rightarrow> elem_type \<Rightarrow> 'obj \<Rightarrow> bool" where
  "converts lib (Scalar Int8) c = (convert (for_int8 lib) c \<noteq> None)"
| "converts lib (ComplexOf Int8) c = (convert_complex (for_int8 lib) c \<noteq> None)"
| "converts lib (Scalar Int16) c = (convert (for_int16 lib) c \<noteq> None)"
| "converts lib (ComplexOf Int16) c = (convert_complex (for_int16 lib) c \<noteq> None)"
| "converts lib (Scalar Int32) c = (convert (for_int32 lib) c \<noteq> None)"
| "converts lib (ComplexOf Int32) c = (convert_complex (for_int32 lib) c \<noteq> None)"
| "converts lib (Scalar Int64) c = (convert (for_int64 lib) c \<noteq> None)"
| "converts lib (ComplexOf Int64) c = (convert_complex (for_int64 lib) c \<noteq> None)"
| "converts lib (Scalar UInt8) c = (convert (for_uint8 lib) c \<noteq> None)"
| "converts lib (ComplexOf UInt8) c = (convert_complex (for_uint8 lib) c \<noteq> None)"
| "converts lib (Scalar UInt16) c = (convert (for_uint16 lib) c \<noteq> None)"
| "converts lib (ComplexOf UInt16) c = (convert_complex (for_uint16 lib) c \<noteq> None)"
| "converts lib (Scalar UInt32) c = (convert (for_uint32 lib) c \<noteq> None)"
| "converts lib (ComplexOf UInt32) c = (convert_complex (for_uint32 lib) c \<noteq> None)"
| "converts lib (Scalar UInt64) c = (convert (for_uint64 lib) c \<noteq> None)"
| "converts lib (ComplexOf UInt64) c = (convert_complex (for_uint64 lib) c \<noteq> None)"
| "converts lib (Scalar Float32) c = (convert (for_float lib) c \<noteq> None)"
| "converts lib (ComplexOf Float32) c = (convert_complex (for_float lib) c \<noteq> None)"
| "converts lib (Scalar Float64) c = (convert (for_double lib) c \<noteq> None)"
| "converts lib (ComplexOf Float64) c = (convert_complex (for_double lib) c \<noteq> None)"
| "converts lib Unspecified c = False"
| "converts lib Custom c = False"

text \<open>Which instantiation a returned pointer addresses, and whether its kernel pointer is null.\<close>

fun instantiated_at :: "('f, 'd) ConstArithmetic_ptr \<Rightarrow> elem_type" where
  "instantiated_at (ConstArithmetic_int8 b) = Scalar Int8"
| "instantiated_at (ConstArithmetic_complex_int8 b) = ComplexOf Int8"
| "instantiated_at (ConstArithmetic_int16 b) = Scalar Int16"
| "instantiated_at (ConstArithmetic_complex_int16 b) = ComplexOf Int16"
| "instantiated_at (ConstArithmetic_int32 b) = Scalar Int32"
| "instantiated_at (ConstArithmetic_complex_int32 b) = ComplexOf Int32"
| "instantiated_at (ConstArithmetic_int64 b) = Scalar Int64"
| "instantiated_at (ConstArithmetic_complex_int64 b) = ComplexOf Int64"
| "instantiated_at (ConstArithmetic_uint8 b) = Scalar UInt8"
| "instantiated_at (ConstArithmetic_complex_uint8 b) = ComplexOf UInt8"
| "instantiated_at (ConstArithmetic_uint16 b) = Scalar UInt16"
| "instantiated_at (ConstArithmetic_complex_uint16 b) = ComplexOf UInt16"
| "instantiated_at (ConstArithmetic_uint32 b) = Scalar UInt32"
| "instantiated_at (ConstArithmetic_complex_uint32 b) = ComplexOf UInt32"
| "instantiated_at (ConstArithmetic_uint64 b) = Scalar UInt64"
| "instantiated_at (ConstArithmetic_complex_uint64 b) = ComplexOf UInt64"
| "instantiated_at (ConstArithmetic_float b) = Scalar Float32"
| "instantiated_at (ConstArithmetic_complex_float b) = ComplexOf Float32"
| "instantiated_at (ConstArithmetic_double b) = Scalar Float64"
| "instantiated_at (ConstArithmetic_complex_double b) = ComplexOf Float64"

fun kernel_is_null :: "('f, 'd) ConstArithmetic_ptr \<Rightarrow> bool" where
  "kernel_is_null (ConstArithmetic_int8 b) = (m_func b = None)"
| "kernel_is_null (ConstArithmetic_complex_int8 b) = (m_func b = None)"
| "kernel_is_null (ConstArithmetic_int16 b) = (m_func b = None)"
| "kernel_is_null (ConstArithmetic_complex_int16 b) = (m_func b = None)"
| "kernel_is_null (ConstArithmetic_int32 b) = (m_func b = None)"
| "kernel_is_null (ConstArithmetic_complex_int32 b) = (m_func b = None)"
| "kernel_is_null (ConstArithmetic_int64 b) = (m_func b = None)"
| "kernel_is_null (ConstArithmetic_complex_int64 b) = (m_func b = None)"
| "kernel_is_null (ConstArithmetic_uint8 b) = (m_func b = None)"
| "kernel_is_null (ConstArithmetic_complex_uint8 b) = (m_func b = None)"
| "kernel_is_null (ConstArithmetic_uint16 b) = (m_func b = None)"
| "kernel_is_null (ConstArithmetic_complex_uint16 b) = (m_func b = None)"
| "kernel_is_null (ConstArithmetic_uint32 b) = (m_func b = None)"
| "kernel_is_null (ConstArithmetic_complex_uint32 b) = (m_func b = None)"
| "kernel_is_null (ConstArithmetic_uint64 b) = (m_func b = None)"
| "kernel_is_null (ConstArithmetic_complex_uint64 b) = (m_func b = None)"
| "kernel_is_null (ConstArithmetic_float b) = (m_func b = None)"
| "kernel_is_null (ConstArithmetic_complex_float b) = (m_func b = None)"
| "kernel_is_null (ConstArithmetic_double b) = (m_func b = None)"
| "kernel_is_null (ConstArithmetic_complex_double b) = (m_func b = None)"

fun Angle_instantiated_at :: "('f, 'd) Angle_ptr \<Rightarrow> elem_type" where
  "Angle_instantiated_at (Angle_double b) = ComplexOf Float64"
| "Angle_instantiated_at (Angle_float b) = ComplexOf Float32"
| "Angle_instantiated_at (Angle_int64 b) = ComplexOf Int64"
| "Angle_instantiated_at (Angle_int32 b) = ComplexOf Int32"
| "Angle_instantiated_at (Angle_int16 b) = ComplexOf Int16"
| "Angle_instantiated_at (Angle_int8 b) = ComplexOf Int8"

fun Angle_kernel_is_null :: "('f, 'd) Angle_ptr \<Rightarrow> bool" where
  "Angle_kernel_is_null (Angle_double b) = (m_fcn b = None)"
| "Angle_kernel_is_null (Angle_float b) = (m_fcn b = None)"
| "Angle_kernel_is_null (Angle_int64 b) = (m_fcn b = None)"
| "Angle_kernel_is_null (Angle_int32 b) = (m_fcn b = None)"
| "Angle_kernel_is_null (Angle_int16 b) = (m_fcn b = None)"
| "Angle_kernel_is_null (Angle_int8 b) = (m_fcn b = None)"

text \<open>
  The block a pointer addresses was made from the converted constant: it holds the value the
  conversion gave, the one signal it has emitted carries that value, and its ports have the
  type of the instantiation at the dimension \<open>d\<close>.
\<close>

definition made_with :: "'a option \<Rightarrow> elem_type \<Rightarrow> nat \<Rightarrow> 'a ConstArithmetic \<Rightarrow> bool" where
  "made_with converted t d b =
     (converted = Some (m_constant b) \<and>
      filter is_signal (calls b) = [EmitSignal ''constantChanged'' (m_constant b)] \<and>
      in_dtype (input0 b) = DType_of t d \<and> out_dtype (output0 b) = DType_of t d)"

fun constructed_with ::
  "('obj, 'f, 'd) libraries \<Rightarrow> 'obj \<Rightarrow> nat \<Rightarrow> ('f, 'd) ConstArithmetic_ptr \<Rightarrow> bool" where
  "constructed_with lib c d (ConstArithmetic_int8 b) =
     made_with (convert (for_int8 lib) c) (Scalar Int8) d b"
| "constructed_with lib c d (ConstArithmetic_complex_int8 b) =
     made_with (convert_complex (for_int8 lib) c) (ComplexOf Int8) d b"
| "constructed_with lib c d (ConstArithmetic_int16 b) =
     made_with (convert (for_int16 lib) c) (Scalar Int16) d b"
| "constructed_with lib c d (ConstArithmetic_complex_int16 b) =
     made_with (convert_complex (for_int16 lib) c) (ComplexOf Int16) d b"
| "constructed_with lib c d (ConstArithmetic_int32 b) =
     made_with (convert (for_int32 lib) c) (Scalar Int32) d b"
| "constructed_with lib c d (ConstArithmetic_complex_int32 b) =
     made_with (convert_complex (for_int32 lib) c) (ComplexOf Int32) d b"
| "constructed_with lib c d (ConstArithmetic_int64 b) =
     made_with (convert (for_int64 lib) c) (Scalar Int64) d b"
| "constructed_with lib c d (ConstArithmetic_complex_int64 b) =
     made_with (convert_complex (for_int64 lib) c) (ComplexOf Int64) d b"
| "constructed_with lib c d (ConstArithmetic_uint8 b) =
     made_with (convert (for_uint8 lib) c) (Scalar UInt8) d b"
| "constructed_with lib c d (ConstArithmetic_complex_uint8 b) =
     made_with (convert_complex (for_uint8 lib) c) (ComplexOf UInt8) d b"
| "constructed_with lib c d (ConstArithmetic_uint16 b) =
     made_with (convert (for_uint16 lib) c) (Scalar UInt16) d b"
| "constructed_with lib c d (ConstArithmetic_complex_uint16 b) =
     made_with (convert_complex (for_uint16 lib) c) (ComplexOf UInt16) d b"
| "constructed_with lib c d (ConstArithmetic_uint32 b) =
     made_with (convert (for_uint32 lib) c) (Scalar UInt32) d b"
| "constructed_with lib c d (ConstArithmetic_complex_uint32 b) =
     made_with (convert_complex (for_uint32 lib) c) (ComplexOf UInt32) d b"
| "constructed_with lib c d (ConstArithmetic_uint64 b) =
     made_with (convert (for_uint64 lib) c) (Scalar UInt64) d b"
| "constructed_with lib c d (ConstArithmetic_complex_uint64 b) =
     made_with (convert_complex (for_uint64 lib) c) (ComplexOf UInt64) d b"
| "constructed_with lib c d (ConstArithmetic_float b) =
     made_with (convert (for_float lib) c) (Scalar Float32) d b"
| "constructed_with lib c d (ConstArithmetic_complex_float b) =
     made_with (convert_complex (for_float lib) c) (ComplexOf Float32) d b"
| "constructed_with lib c d (ConstArithmetic_double b) =
     made_with (convert (for_double lib) c) (Scalar Float64) d b"
| "constructed_with lib c d (ConstArithmetic_complex_double b) =
     made_with (convert_complex (for_double lib) c) (ComplexOf Float64) d b"

text \<open>
  A steady run of a block: before each step the host hands it the state of its two ports.
\<close>

fun run ::
  "('a InputPort \<times> 'a OutputPort) list \<Rightarrow> 'a ConstArithmetic \<Rightarrow> fault + 'a ConstArithmetic" where
  "run [] b = Inr b"
| "run ((inPort, outPort) # rest) b =
     (case work (b\<lparr>input0 := inPort, output0 := outPort\<rparr>) of
        Inl e \<Rightarrow> Inl e
      | Inr b' \<Rightarrow> run rest b')"


section \<open>A host for the examples\<close>

text \<open>
  The theorems below hold for every library. Where one is evaluated, it is this one: an
  object is empty or holds an integer, and converts to a type that has its value; the
  complex quotient and the angle of a complex number, which no example computes, are
  stand-ins.
\<close>

datatype example_object = NullObject | IntObject int

fun to_signed :: "example_object \<Rightarrow> 'a::len word option" where
  "to_signed NullObject = None"
| "to_signed (IntObject v) =
     (if - (2 ^ (LENGTH('a) - 1)) \<le> v \<and> v < 2 ^ (LENGTH('a) - 1)
      then Some (word_of_int v) else None)"

fun to_unsigned :: "example_object \<Rightarrow> 'a::len word option" where
  "to_unsigned NullObject = None"
| "to_unsigned (IntObject v) =
     (if 0 \<le> v \<and> v < 2 ^ LENGTH('a) then Some (word_of_int v) else None)"

fun to_real :: "example_object \<Rightarrow> real option" where
  "to_real NullObject = None"
| "to_real (IntObject v) = Some (of_int v)"

definition example_instance ::
  "(example_object \<Rightarrow> 'a option) \<Rightarrow> 'a \<Rightarrow> (example_object, 'a) instance_of" where
  "example_instance conv zero =
     \<lparr>convert = conv,
      convert_complex = (\<lambda>c. map_option (\<lambda>x. Cplx x zero) (conv c)),
      complex_quot = (\<lambda>x y. Inl UndefinedDivision)\<rparr>"

text \<open>
  The reals with their own operators, for the examples on \<open>float\<close> values: on integers of
  less than 24 bits a sum of 32-bit floats is the real sum, which is all the examples use.
\<close>

definition real_arith :: "real arith" where
  "real_arith =
     \<lparr>op_zero = 0, op_plus = (+), op_minus = (-), op_times = (*),
      op_divide = (\<lambda>x y. if y = 0 then Inl UndefinedDivision else Inr (x / y))\<rparr>"

definition example_libraries :: "(example_object, real, real) libraries" where
  "example_libraries =
     \<lparr>for_int8 = example_instance to_signed 0,
        for_int16 = example_instance to_signed 0,
        for_int32 = example_instance to_signed 0,
        for_int64 = example_instance to_signed 0,
        for_uint8 = example_instance to_unsigned 0,
        for_uint16 = example_instance to_unsigned 0,
        for_uint32 = example_instance to_unsigned 0,
        for_uint64 = example_instance to_unsigned 0,
        for_float = example_instance to_real 0,
        for_double = example_instance to_real 0,
        float_arith = real_arith,
        double_arith = real_arith\<rparr>"

definition example_helpers :: "(real, real) FxptHelpers" where
  "example_helpers =
     \<lparr>getAngle_double = (\<lambda>z. 0),
        getAngle_float = (\<lambda>z. 0),
        getAngle_int64 = (\<lambda>z. 0),
        getAngle_int32 = (\<lambda>z. 0),
        getAngle_int16 = (\<lambda>z. 0),
        getAngle_int8 = (\<lambda>z. 0)\<rparr>"

text \<open>
  A const-arithmetic block with four elements of dimension 2 waiting on either port, and an
  angle block with two elements of dimension 1.
\<close>

definition example_block :: "32 word ConstArithmetic" where
  "example_block =
     (ConstArithmetic_new (Scalar Int32) signed_int (getXPlusKFcn signed_int) 3 2)
       \<lparr>input0 := \<lparr>in_dtype = DType_of (Scalar Int32) 2,
                    in_buffer = [1, 2, 3, 4, 5, 6, 7, 8], in_elements = 4, in_consumed = 0\<rparr>,
        output0 := \<lparr>out_dtype = DType_of (Scalar Int32) 2,
                     out_buffer = [0, 0, 0, 0, 0, 0, 0, 0], out_elements = 4,
                     out_produced = 0\<rparr>\<rparr>"

definition example_angle :: "(16 word cplx, 16 word) Angle" where
  "example_angle =
     (Angle_new (ComplexOf Int16) (Scalar Int16) (getAngle_int16 example_helpers) 1)
       \<lparr>input0 := \<lparr>in_dtype = DType_of (ComplexOf Int16) 1,
                    in_buffer = [Cplx 1 0, Cplx 0 1], in_elements = 2, in_consumed = 0\<rparr>,
        output0 := \<lparr>out_dtype = DType_of (Scalar Int16) 1,
                     out_buffer = [7, 7, 7], out_elements = 2, out_produced = 0\<rparr>\<rparr>"


section \<open>The kernel loop\<close>

lemma for_loop_lane:
  assumes "num \<le> length inp" and "num \<le> length out"
    and "\<forall>j. i \<le> j \<and> j < num \<longrightarrow> f (inp ! j) = Inr (g j)"
  shows "\<exists>out'. for_loop i num (lane inp f) out = Inr out' \<and> length out' = length out \<and>
           (\<forall>j<length out. out' ! j = (if i \<le> j \<and> j < num then g j else out ! j))"
  using assms
proof (induction "num - i" arbitrary: i out)
  case 0
  then show ?case by (auto simp: for_loop.simps)
next
  case (Suc d)
  then have lt: "i < num" by simp
  let ?out1 = "out[i := g i]"
  have body: "lane inp f i out = Inr ?out1"
    using lt Suc.prems by (simp add: lane_def load_def store_def)
  have "d = num - (i + 1)" using Suc.hyps by simp
  from Suc.hyps(1) [OF this, of ?out1] Suc.prems
  obtain out' where o: "for_loop (i + 1) num (lane inp f) ?out1 = Inr out'"
      "length out' = length out"
      "\<forall>j<length out. out' ! j = (if i + 1 \<le> j \<and> j < num then g j else ?out1 ! j)"
    by auto
  have "for_loop i num (lane inp f) out = Inr out'"
    using lt body o(1) by (subst for_loop.simps) simp
  moreover have "\<forall>j<length out. out' ! j = (if i \<le> j \<and> j < num then g j else out ! j)"
  proof (intro allI impI)
    fix j assume j: "j < length out"
    show "out' ! j = (if i \<le> j \<and> j < num then g j else out ! j)"
    proof (cases "j = i")
      case True
      then show ?thesis using o(3) j lt by simp
    next
      case False
      then have "(i + 1 \<le> j) = (i \<le> j)" by auto
      then show ?thesis using o(3) j False by simp
    qed
  qed
  ultimately show ?case using o(2) by blast
qed

lemma for_loop_lane_fault:
  assumes "i \<le> m" "m < num" "num \<le> length inp" and "num \<le> length out"
    and "\<forall>j. i \<le> j \<and> j < m \<longrightarrow> f (inp ! j) = Inr (g j)"
    and "f (inp ! m) = Inl e"
  shows "for_loop i num (lane inp f) out = Inl e"
  using assms
proof (induction "m - i" arbitrary: i out)
  case 0
  then have "i = m" by simp
  then have "lane inp f i out = Inl e" using 0 by (simp add: lane_def load_def)
  then show ?case using 0 \<open>i = m\<close> by (subst for_loop.simps) simp
next
  case (Suc d)
  then have lt: "i < m" by simp
  have body: "lane inp f i out = Inr (out[i := g i])"
    using lt Suc.prems by (simp add: lane_def load_def store_def)
  have "d = m - (i + 1)" using Suc.hyps by simp
  from Suc.hyps(1) [OF this, of "out[i := g i]"] Suc.prems lt
  have "for_loop (i + 1) num (lane inp f) (out[i := g i]) = Inl e" by auto
  then show ?case using lt Suc.prems body by (subst for_loop.simps) simp
qed


section \<open>Integer division\<close>

lemma sdiv_reaches_bound:
  fixes a b :: int
  assumes "b \<noteq> 0" and "- m \<le> a" and "a < m" and "m \<le> a sdiv b"
  shows "a = - m \<and> b = - 1"
proof -
  have r: "a sdiv b \<in> {- \<bar>a\<bar>..\<bar>a\<bar>}" by (rule sdiv_int_range)
  then have "m \<le> \<bar>a\<bar>" using assms(4) by simp
  then have a: "a = - m" using assms(2,3) by linarith
  have mpos: "0 < m" using assms(2,3) by linarith
  have "a sdiv b \<le> \<bar>a\<bar>" using r by simp
  then have "a sdiv b \<le> m" using a mpos by simp
  then have q: "a sdiv b = m" using assms(4) by simp
  have "a sdiv b = sgn a * sgn b * (\<bar>a\<bar> div \<bar>b\<bar>)" by (simp add: signed_divide_int_def)
  then have e: "m = - (sgn b * (m div \<bar>b\<bar>))" using q a mpos by simp
  have sb: "sgn b = - 1"
  proof (rule ccontr)
    assume "sgn b \<noteq> - 1"
    then have "0 < b" using assms(1) by (cases "b < 0") auto
    then have "sgn b = 1" by simp
    with e have "m = - (m div \<bar>b\<bar>)" by simp
    moreover have "0 \<le> m div \<bar>b\<bar>"
      using mpos by (simp add: div_int_pos_iff)
    ultimately show False using mpos by linarith
  qed
  then have bneg: "b < 0" by (simp add: sgn_if split: if_splits)
  from e sb have d: "m div \<bar>b\<bar> = m" by simp
  have "\<bar>b\<bar> = 1"
  proof (rule ccontr)
    assume "\<bar>b\<bar> \<noteq> 1"
    then have "1 < \<bar>b\<bar>" using assms(1) by linarith
    then have "m div \<bar>b\<bar> < m" using mpos by (simp add: int_div_less_self)
    with d show False by simp
  qed
  with bneg have "b = - 1" by linarith
  with a show ?thesis by simp
qed

lemma int_quot_eq:
  "int_quot x k =
     (if k = 0 \<or> quotient_overflows x k then Inl UndefinedDivision
      else Inr (word_of_int (sint x sdiv sint k)))"
proof (cases "k = 0")
  case True
  then show ?thesis by (simp add: int_quot_def)
next
  case False
  have k: "sint k \<noteq> 0"
  proof
    assume "sint k = 0"
    then have "sint k = sint (0 :: 'a word)" by simp
    then have "k = 0" by (rule signed_word_eqI)
    with False show False by simp
  qed
  let ?n = "LENGTH('a)"
  let ?w = "max 32 ?n"
  have "(2 ^ (?w - 1) \<le> sint x sdiv sint k) = quotient_overflows x k"
  proof
    assume le: "2 ^ (?w - 1) \<le> sint x sdiv sint k"
    have r: "sint x sdiv sint k \<in> {- \<bar>sint x\<bar>..\<bar>sint x\<bar>}" by (rule sdiv_int_range)
    have lo: "- (2 ^ (?n - 1)) \<le> sint x" by (rule sint_ge)
    have hi: "sint x < 2 ^ (?n - 1)" by (rule sint_lt)
    have "sint x sdiv sint k \<le> \<bar>sint x\<bar>" using r by simp
    also have "\<bar>sint x\<bar> \<le> 2 ^ (?n - 1)" using lo hi by linarith
    finally have "(2::int) ^ (?w - 1) \<le> 2 ^ (?n - 1)" using le by linarith
    then have "?w - 1 \<le> ?n - 1" by (simp add: power_le_imp_le_exp)
    then have n32: "32 \<le> ?n" by simp
    then have "?w = ?n" by simp
    with le have "2 ^ (?n - 1) \<le> sint x sdiv sint k" by simp
    from sdiv_reaches_bound [OF k lo hi this] n32 show "quotient_overflows x k"
      by (simp add: quotient_overflows_def)
  next
    assume "quotient_overflows x k"
    then have "32 \<le> ?n" "sint x = - (2 ^ (?n - 1))" "sint k = - 1"
      by (simp_all add: quotient_overflows_def)
    then show "2 ^ (?w - 1) \<le> sint x sdiv sint k" by simp
  qed
  with False show ?thesis by (simp add: int_quot_def Let_def)
qed


section \<open>The factories, branch by branch\<close>

lemma fromDType_eq: "(fromDType dtype 1 = DType_of t 1) = (elemType dtype = t)"
  by (cases dtype) (auto simp: fromDType_def DType_of_def)

lemma getters_not_null:
  "getXPlusKFcn T \<noteq> None" "getXSubKFcn T \<noteq> None" "getKSubXFcn T \<noteq> None"
  "getXMultKFcn T \<noteq> None" "getXDivKFcn T \<noteq> None" "getKDivXFcn T \<noteq> None"
  by (simp_all add: getXPlusKFcn_def getXSubKFcn_def getKSubXFcn_def getXMultKFcn_def
      getXDivKFcn_def getKDivXFcn_def)

lemma type_op_eq:
  "ifTypeDeclareFactory_type_op dtype operation c type T conv opKey func =
     (if elemType dtype = type \<and> opKey = operation
      then Some (case conv c of
                   None \<Rightarrow> Inl ObjectConvertError
                 | Some k \<Rightarrow> Inr (ConstArithmetic_new type T func k (dimension dtype)))
      else None)"
  unfolding ifTypeDeclareFactory_type_op_def fromDType_eq ..

lemma type_None:
  assumes "elemType dtype \<noteq> type \<or> operation \<notin> set operations"
  shows "ifTypeDeclareFactory_type dtype operation c type T conv = None"
proof (cases "elemType dtype = type")
  case False
  then show ?thesis by (simp add: ifTypeDeclareFactory_type_def type_op_eq)
next
  case True
  with assms have "operation \<notin> set operations" by simp
  then have "''X+K'' \<noteq> operation" "''X-K'' \<noteq> operation" "''K-X'' \<noteq> operation"
    "''X*K'' \<noteq> operation" "''X/K'' \<noteq> operation" "''K/X'' \<noteq> operation"
    by (auto simp: operations_def)
  then show ?thesis by (simp add: ifTypeDeclareFactory_type_def type_op_eq)
qed

lemma type_Some:
  assumes "elemType dtype = type" and "operation \<in> set operations"
  shows "\<exists>fp. fp \<noteq> None \<and>
     ifTypeDeclareFactory_type dtype operation c type T conv =
       Some (case conv c of
               None \<Rightarrow> Inl ObjectConvertError
             | Some k \<Rightarrow> Inr (ConstArithmetic_new type T fp k (dimension dtype)))"
proof -
  from assms(2) consider "operation = ''X+K''" | "operation = ''X-K''" | "operation = ''K-X''"
    | "operation = ''X*K''" | "operation = ''X/K''" | "operation = ''K/X''"
    by (auto simp: operations_def)
  then show ?thesis
  proof cases
    case 1
    with assms(1) getters_not_null(1) [of T] show ?thesis
      by (intro exI [of _ "getXPlusKFcn T"])
        (simp add: ifTypeDeclareFactory_type_def type_op_eq)
  next
    case 2
    with assms(1) getters_not_null(2) [of T] show ?thesis
      by (intro exI [of _ "getXSubKFcn T"])
        (simp add: ifTypeDeclareFactory_type_def type_op_eq)
  next
    case 3
    with assms(1) getters_not_null(3) [of T] show ?thesis
      by (intro exI [of _ "getKSubXFcn T"])
        (simp add: ifTypeDeclareFactory_type_def type_op_eq)
  next
    case 4
    with assms(1) getters_not_null(4) [of T] show ?thesis
      by (intro exI [of _ "getXMultKFcn T"])
        (simp add: ifTypeDeclareFactory_type_def type_op_eq)
  next
    case 5
    with assms(1) getters_not_null(5) [of T] show ?thesis
      by (intro exI [of _ "getXDivKFcn T"])
        (simp add: ifTypeDeclareFactory_type_def type_op_eq)
  next
    case 6
    with assms(1) getters_not_null(6) [of T] show ?thesis
      by (intro exI [of _ "getKDivXFcn T"])
        (simp add: ifTypeDeclareFactory_type_def type_op_eq)
  qed
qed

lemma pair_None:
  "(elemType dtype \<noteq> Scalar type \<and> elemType dtype \<noteq> ComplexOf type) \<or>
     operation \<notin> set operations \<Longrightarrow>
   ifTypeDeclareFactory dtype operation c type T inst up upc = None"
  by (auto simp: ifTypeDeclareFactory_def type_None)

lemma new_func: "m_func (ConstArithmetic_new t T fp k d) = fp"
  by (simp add: ConstArithmetic_new_def Let_def setConstant_def emitSignal_def called_def
      setupInput_def setupOutput_def)

lemma new_constant: "m_constant (ConstArithmetic_new t T fp k d) = k"
  by (simp add: ConstArithmetic_new_def Let_def setConstant_def emitSignal_def called_def
      setupInput_def setupOutput_def)

lemma new_calls:
  "calls (ConstArithmetic_new t T fp k d) =
     [SetupInput 0 (DType_of t d), SetupOutput 0 (DType_of t d),
      RegisterCall ''constant'', RegisterCall ''setConstant'',
      RegisterProbe ''constant'', RegisterSignal ''constantChanged'',
      EmitSignal ''constantChanged'' k]"
  by (simp add: ConstArithmetic_new_def Let_def setConstant_def emitSignal_def called_def
      setupInput_def setupOutput_def)

lemma new_ports:
  "input0 (ConstArithmetic_new t T fp k d) =
     \<lparr>in_dtype = DType_of t d, in_buffer = [], in_elements = 0, in_consumed = 0\<rparr>"
  "output0 (ConstArithmetic_new t T fp k d) =
     \<lparr>out_dtype = DType_of t d, out_buffer = [], out_elements = 0, out_produced = 0\<rparr>"
  by (simp_all add: ConstArithmetic_new_def Let_def setConstant_def emitSignal_def called_def
      setupInput_def setupOutput_def)

lemma new_made_with: "made_with (Some k) t d (ConstArithmetic_new t T fp k d)"
  by (simp add: made_with_def new_constant new_calls new_ports)

text \<open>
  What one \<^verbatim>\<open>ifTypeDeclareFactory(type)\<close> returns when the descriptor names \<open>type\<close> or its
  complex type and the operation is one of the six.
\<close>

lemma pair_result:
  assumes "operation \<in> set operations"
    and "elemType dtype = Scalar type \<or> elemType dtype = ComplexOf type"
  shows "\<exists>r. ifTypeDeclareFactory dtype operation c type T inst up upc = Some r \<and>
    (elemType dtype = Scalar type \<longrightarrow>
       (case convert inst c of
          None \<Rightarrow> r = Inl ObjectConvertError
        | Some k \<Rightarrow> \<exists>b. r = Inr (up b) \<and> m_func b \<noteq> None \<and>
            made_with (Some k) (Scalar type) (dimension dtype) b)) \<and>
    (elemType dtype = ComplexOf type \<longrightarrow>
       (case convert_complex inst c of
          None \<Rightarrow> r = Inl ObjectConvertError
        | Some k \<Rightarrow> \<exists>b. r = Inr (upc b) \<and> m_func b \<noteq> None \<and>
            made_with (Some k) (ComplexOf type) (dimension dtype) b))"
proof -
  from assms(2) show ?thesis
  proof
    assume e: "elemType dtype = Scalar type"
    from type_Some [OF e assms(1), of c T "convert inst"]
    obtain fp where fp: "fp \<noteq> None"
      "ifTypeDeclareFactory_type dtype operation c (Scalar type) T (convert inst) =
         Some (case convert inst c of
                 None \<Rightarrow> Inl ObjectConvertError
               | Some k \<Rightarrow> Inr (ConstArithmetic_new (Scalar type) T fp k (dimension dtype)))"
      by blast
    show ?thesis
    proof (cases "convert inst c")
      case None
      with fp e show ?thesis by (simp add: ifTypeDeclareFactory_def)
    next
      case (Some k)
      have "m_func (ConstArithmetic_new (Scalar type) T fp k (dimension dtype)) \<noteq> None"
        "made_with (Some k) (Scalar type) (dimension dtype)
           (ConstArithmetic_new (Scalar type) T fp k (dimension dtype))"
        using fp(1) by (simp_all add: new_func new_made_with)
      with Some fp(2) e show ?thesis by (auto simp: ifTypeDeclareFactory_def)
    qed
  next
    assume e: "elemType dtype = ComplexOf type"
    let ?C = "std_complex T (complex_quot inst)"
    from type_Some [OF e assms(1), of c ?C "convert_complex inst"]
    obtain fp where fp: "fp \<noteq> None"
      "ifTypeDeclareFactory_type dtype operation c (ComplexOf type) ?C (convert_complex inst) =
         Some (case convert_complex inst c of
                 None \<Rightarrow> Inl ObjectConvertError
               | Some k \<Rightarrow> Inr (ConstArithmetic_new (ComplexOf type) ?C fp k (dimension dtype)))"
      by blast
    have n: "ifTypeDeclareFactory_type dtype operation c (Scalar type) T (convert inst) = None"
      using e by (simp add: type_None)
    show ?thesis
    proof (cases "convert_complex inst c")
      case None
      with fp e n show ?thesis by (simp add: ifTypeDeclareFactory_def)
    next
      case (Some k)
      have "m_func (ConstArithmetic_new (ComplexOf type) ?C fp k (dimension dtype)) \<noteq> None"
        "made_with (Some k) (ComplexOf type) (dimension dtype)
           (ConstArithmetic_new (ComplexOf type) ?C fp k (dimension dtype))"
        using fp(1) by (simp_all add: new_func new_made_with)
      with Some fp(2) e n show ?thesis by (auto simp: ifTypeDeclareFactory_def)
    qed
  qed
qed

lemma make_unsupported:
  assumes "\<not> advertised (elemType dtype) operation"
  shows "makeConstArithmetic lib dtype operation c =
     Inl (InvalidArgumentException ''makeConstArithmetic'' dtype (Some operation)
            ''unsupported args'')"
proof (cases "operation \<in> set operations")
  case False
  then show ?thesis by (simp add: makeConstArithmetic_def pair_None)
next
  case True
  with assms have "\<not> numeric (elemType dtype)" by (simp add: advertised_def)
  then have "\<And>t. elemType dtype \<noteq> Scalar t \<and> elemType dtype \<noteq> ComplexOf t"
    by (cases "elemType dtype") auto
  then show ?thesis by (simp add: makeConstArithmetic_def pair_None)
qed

lemma make_advertised:
  fixes lib :: "('obj, 'f, 'd) libraries"
  assumes "advertised (elemType dtype) operation"
  shows "if converts lib (elemType dtype) c
         then \<exists>p. makeConstArithmetic lib dtype operation c = Inr p \<and>
                instantiated_at p = elemType dtype \<and> \<not> kernel_is_null p \<and>
                constructed_with lib c (dimension dtype) p
         else makeConstArithmetic lib dtype operation c = Inl ObjectConvertError"
proof -
  from assms have op: "operation \<in> set operations" by (simp add: advertised_def)
  from assms obtain bt where t: "elemType dtype = Scalar bt \<or> elemType dtype = ComplexOf bt"
    by (cases "elemType dtype") (auto simp: advertised_def)
  show ?thesis
  proof (cases bt)
    case Int8
    with t pair_result [OF op, of dtype Int8 c signed_int "for_int8 lib" ConstArithmetic_int8
        "ConstArithmetic_complex_int8 :: _ \<Rightarrow> ('f, 'd) ConstArithmetic_ptr"]
    show ?thesis
      by (auto simp: makeConstArithmetic_def pair_None split: option.splits)
  next
    case Int16
    with t pair_result [OF op, of dtype Int16 c signed_int "for_int16 lib" ConstArithmetic_int16
        "ConstArithmetic_complex_int16 :: _ \<Rightarrow> ('f, 'd) ConstArithmetic_ptr"]
    show ?thesis
      by (auto simp: makeConstArithmetic_def pair_None split: option.splits)
  next
    case Int32
    with t pair_result [OF op, of dtype Int32 c signed_int "for_int32 lib" ConstArithmetic_int32
        "ConstArithmetic_complex_int32 :: _ \<Rightarrow> ('f, 'd) ConstArithmetic_ptr"]
    show ?thesis
      by (auto simp: makeConstArithmetic_def pair_None split: option.splits)
  next
    case Int64
    with t pair_result [OF op, of dtype Int64 c signed_int "for_int64 lib" ConstArithmetic_int64
        "ConstArithmetic_complex_int64 :: _ \<Rightarrow> ('f, 'd) ConstArithmetic_ptr"]
    show ?thesis
      by (auto simp: makeConstArithmetic_def pair_None split: option.splits)
  next
    case UInt8
    with t pair_result [OF op, of dtype UInt8 c unsigned_int "for_uint8 lib" ConstArithmetic_uint8
        "ConstArithmetic_complex_uint8 :: _ \<Rightarrow> ('f, 'd) ConstArithmetic_ptr"]
    show ?thesis
      by (auto simp: makeConstArithmetic_def pair_None split: option.splits)
  next
    case UInt16
    with t pair_result [OF op, of dtype UInt16 c unsigned_int "for_uint16 lib" ConstArithmetic_uint16
        "ConstArithmetic_complex_uint16 :: _ \<Rightarrow> ('f, 'd) ConstArithmetic_ptr"]
    show ?thesis
      by (auto simp: makeConstArithmetic_def pair_None split: option.splits)
  next
    case UInt32
    with t pair_result [OF op, of dtype UInt32 c unsigned_int "for_uint32 lib" ConstArithmetic_uint32
        "ConstArithmetic_complex_uint32 :: _ \<Rightarrow> ('f, 'd) ConstArithmetic_ptr"]
    show ?thesis
      by (auto simp: makeConstArithmetic_def pair_None split: option.splits)
  next
    case UInt64
    with t pair_result [OF op, of dtype UInt64 c unsigned_int "for_uint64 lib" ConstArithmetic_uint64
        "ConstArithmetic_complex_uint64 :: _ \<Rightarrow> ('f, 'd) ConstArithmetic_ptr"]
    show ?thesis
      by (auto simp: makeConstArithmetic_def pair_None split: option.splits)
  next
    case Float32
    with t pair_result [OF op, of dtype Float32 c "float_arith lib" "for_float lib" ConstArithmetic_float
        "ConstArithmetic_complex_float :: _ \<Rightarrow> ('f, 'd) ConstArithmetic_ptr"]
    show ?thesis
      by (auto simp: makeConstArithmetic_def pair_None split: option.splits)
  next
    case Float64
    with t pair_result [OF op, of dtype Float64 c "double_arith lib" "for_double lib" ConstArithmetic_double
        "ConstArithmetic_complex_double :: _ \<Rightarrow> ('f, 'd) ConstArithmetic_ptr"]
    show ?thesis
      by (auto simp: makeConstArithmetic_def pair_None split: option.splits)
  qed
qed

lemma Angle_factory_eq:
  "Angle_ifTypeDeclareFactory dtype type getAngle up =
     (if elemType dtype = ComplexOf type
      then Some (up (Angle_new (ComplexOf type) (Scalar type) getAngle (dimension dtype)))
      else None)"
  unfolding Angle_ifTypeDeclareFactory_def Angle_ifTypeDeclareFactory_in_out_def fromDType_eq ..

lemma Angle_new_fcn: "m_fcn (Angle_new tin tout getAngle d) = getAngleFcn getAngle"
  by (simp add: Angle_new_def Let_def called_def setupInput_def setupOutput_def)

lemma getAngleFcn_not_null: "getAngleFcn getAngle \<noteq> None"
  by (simp add: getAngleFcn_def)

lemma angle_unsupported:
  assumes "\<not> Angle_advertised (elemType dtype)"
  shows "angleFactory hlp dtype =
     Inl (InvalidArgumentException ''angleFactory'' dtype None ''unsupported type'')"
  using assms by (simp add: angleFactory_def Angle_factory_eq Angle_advertised_def)

lemma angle_advertised:
  assumes "Angle_advertised (elemType dtype)"
  shows "\<exists>p. angleFactory hlp dtype = Inr p \<and> Angle_instantiated_at p = elemType dtype \<and>
           \<not> Angle_kernel_is_null p"
proof -
  from assms consider "elemType dtype = ComplexOf Float64" | "elemType dtype = ComplexOf Float32"
    | "elemType dtype = ComplexOf Int64" | "elemType dtype = ComplexOf Int32"
    | "elemType dtype = ComplexOf Int16" | "elemType dtype = ComplexOf Int8"
    by (auto simp: Angle_advertised_def)
  then show ?thesis
    by cases
      (simp_all add: angleFactory_def Angle_factory_eq Angle_new_fcn getAngleFcn_not_null)
qed

lemma work_idle: "minElements b = 0 \<Longrightarrow> work b = Inr b"
  by (simp add: work_def)

lemma Angle_work_idle: "minElements b = 0 \<Longrightarrow> Angle_work b = Inr b"
  by (simp add: Angle_work_def)

lemma work_step:
  assumes "0 < minElements b"
  shows "work b =
     (case invoke (m_func b) (in_buffer (input0 b)) (m_constant b) (out_buffer (output0 b))
             (minElements b * dimension (in_dtype (input0 b))) of
        Inl e \<Rightarrow> Inl e
      | Inr buf \<Rightarrow>
          Inr (b\<lparr>input0 := (input0 b)\<lparr>in_consumed := in_consumed (input0 b) + minElements b\<rparr>,
                 output0 := (output0 b)\<lparr>out_buffer := buf,
                    out_produced := out_produced (output0 b) + minElements b\<rparr>,
                 calls := calls b @
                   [InputBuffer 0, OutputBuffer 0,
                    CallFunc (m_constant b) (minElements b * dimension (in_dtype (input0 b))),
                    Consume 0 (minElements b), Produce 0 (minElements b)]\<rparr>))"
  using assms
  by (simp add: work_def Let_def called_def consume_def produce_def written_def
      split: sum.split)

lemma Angle_work_step:
  assumes "0 < minElements b"
  shows "Angle_work b =
     (case invoke_angle (m_fcn b) (in_buffer (input0 b)) (out_buffer (output0 b))
             (minElements b * dimension (in_dtype (input0 b))) of
        Inl e \<Rightarrow> Inl e
      | Inr buf \<Rightarrow>
          Inr (b\<lparr>input0 := (input0 b)\<lparr>in_consumed := in_consumed (input0 b) + minElements b\<rparr>,
                 output0 := (output0 b)\<lparr>out_buffer := buf,
                    out_produced := out_produced (output0 b) + minElements b\<rparr>,
                 calls := calls b @
                   [InputBuffer 0, OutputBuffer 0,
                    CallFcn (minElements b * dimension (in_dtype (input0 b))),
                    Consume 0 (minElements b), Produce 0 (minElements b)]\<rparr>))"
  using assms
  by (simp add: Angle_work_def Let_def called_def consume_def produce_def written_def
      split: sum.split)

lemma work_keeps:
  assumes "work b = Inr b'"
  shows "m_constant b' = m_constant b" and "m_func b' = m_func b"
proof -
  have "m_constant b' = m_constant b \<and> m_func b' = m_func b"
  proof (cases "minElements b = 0")
    case True
    with assms show ?thesis by (simp add: work_idle)
  next
    case False
    then have "0 < minElements b" by simp
    from assms show ?thesis
      unfolding work_step [OF \<open>0 < minElements b\<close>] by (auto split: sum.splits)
  qed
  then show "m_constant b' = m_constant b" and "m_func b' = m_func b" by simp_all
qed


section \<open>Buffers the kernels touch\<close>

lemma for_loop_lane_exact:
  assumes "for_loop i num (lane inp f) out = Inr out'" and "i \<le> num"
  shows "(i < num \<longrightarrow> num \<le> length inp \<and> num \<le> length out) \<and> length out' = length out \<and>
         (\<forall>j. num \<le> j \<and> j < length out \<longrightarrow> out' ! j = out ! j)"
  using assms
proof (induction "num - i" arbitrary: i out)
  case 0
  then have "i = num" by simp
  with 0 show ?case by (simp add: for_loop.simps)
next
  case (Suc d)
  then have lt: "i < num" by simp
  from Suc.prems(1) lt obtain out1 where body: "lane inp f i out = Inr out1"
    and rest: "for_loop (i + 1) num (lane inp f) out1 = Inr out'"
    by (subst (asm) for_loop.simps) (auto split: sum.splits)
  from body obtain y where i: "i < length inp" "i < length out" and out1: "out1 = out[i := y]"
    by (auto simp: lane_def load_def store_def split: sum.splits if_splits)
  have "d = num - (i + 1)" using Suc.hyps by simp
  from Suc.hyps(1) [OF this rest] lt
  have ih: "i + 1 < num \<longrightarrow> num \<le> length inp \<and> num \<le> length out1"
    "length out' = length out1"
    "\<forall>j. num \<le> j \<and> j < length out1 \<longrightarrow> out' ! j = out1 ! j"
    by auto
  have "num \<le> length inp \<and> num \<le> length out"
  proof (cases "i + 1 < num")
    case True
    with ih(1) out1 show ?thesis by simp
  next
    case False
    with lt have "num = i + 1" by simp
    with i show ?thesis by simp
  qed
  moreover have "length out' = length out" using ih(2) out1 by simp
  moreover have "\<forall>j. num \<le> j \<and> j < length out \<longrightarrow> out' ! j = out ! j"
    using ih(3) out1 lt by auto
  ultimately show ?case by blast
qed

lemma kernel_pass_exact:
  assumes "for_loop 0 num (lane inp f) out = Inr out'"
  shows "num \<le> length inp \<and> num \<le> length out \<and> length out' = length out \<and>
         drop num out' = drop num out"
proof -
  from for_loop_lane_exact [OF assms]
  have e: "0 < num \<longrightarrow> num \<le> length inp \<and> num \<le> length out" "length out' = length out"
    "\<forall>j. num \<le> j \<and> j < length out \<longrightarrow> out' ! j = out ! j"
    by auto
  have "drop num out' = drop num out"
    using e(2,3) by (intro nth_equalityI) auto
  moreover have "num \<le> length inp \<and> num \<le> length out" using e(1) by (cases num) auto
  ultimately show ?thesis using e(2) by simp
qed

lemma scalar_lanes_length: "length (scalar_lanes zs) = length zs * 2"
  by (induction zs) (simp_all add: scalar_lanes_def)

lemma scalar_lanes_take: "scalar_lanes (take n zs) = take (n * 2) (scalar_lanes zs)"
proof (induction zs arbitrary: n)
  case Nil
  then show ?case by (simp add: scalar_lanes_def)
next
  case (Cons z zs)
  show ?case
  proof (cases n)
    case 0
    then show ?thesis by (simp add: scalar_lanes_def)
  next
    case (Suc m)
    have "scalar_lanes (z # zs) = real_of z # imag_of z # scalar_lanes zs"
      by (simp add: scalar_lanes_def)
    moreover have "scalar_lanes (take n (z # zs)) =
        real_of z # imag_of z # scalar_lanes (take m zs)"
      using Suc by (simp add: scalar_lanes_def)
    ultimately show ?thesis using Suc Cons.IH [of m] by simp
  qed
qed

section \<open>Runs\<close>

lemma run_keeps:
  assumes "run ps b = Inr b'"
  shows "m_constant b' = m_constant b \<and> m_func b' = m_func b \<and>
         (\<exists>cs. calls b' = calls b @ cs \<and> filter is_signal cs = [] \<and>
               (\<forall>k n. CallFunc k n \<in> set cs \<longrightarrow> k = m_constant b))"
  using assms
proof (induction ps arbitrary: b)
  case Nil
  then show ?case by simp
next
  case (Cons p ps)
  obtain inPort outPort where p: "p = (inPort, outPort)" by (cases p)
  let ?b0 = "b\<lparr>input0 := inPort, output0 := outPort\<rparr>"
  from Cons.prems p obtain b1 where w: "work ?b0 = Inr b1" and r: "run ps b1 = Inr b'"
    by (auto split: sum.splits)
  have k1: "m_constant b1 = m_constant b" "m_func b1 = m_func b"
    using work_keeps [OF w] by simp_all
  have "\<exists>cs. calls b1 = calls b @ cs \<and> filter is_signal cs = [] \<and>
          (\<forall>k n. CallFunc k n \<in> set cs \<longrightarrow> k = m_constant b)"
  proof (cases "minElements ?b0 = 0")
    case True
    with w have "b1 = ?b0" by (simp add: work_idle)
    then show ?thesis by simp
  next
    case False
    then have "0 < minElements ?b0" by simp
    from w show ?thesis
      unfolding work_step [OF \<open>0 < minElements ?b0\<close>] by (auto split: sum.splits)
  qed
  then obtain cs1 where cs1: "calls b1 = calls b @ cs1" "filter is_signal cs1 = []"
    "\<forall>k n. CallFunc k n \<in> set cs1 \<longrightarrow> k = m_constant b"
    by blast
  from Cons.IH [OF r] k1 obtain cs2 where cs2: "m_constant b' = m_constant b"
    "m_func b' = m_func b" "calls b' = calls b1 @ cs2" "filter is_signal cs2 = []"
    "\<forall>k n. CallFunc k n \<in> set cs2 \<longrightarrow> k = m_constant b"
    by auto
  have "calls b' = calls b @ (cs1 @ cs2) \<and> filter is_signal (cs1 @ cs2) = [] \<and>
        (\<forall>k n. CallFunc k n \<in> set (cs1 @ cs2) \<longrightarrow> k = m_constant b)"
    using cs1 cs2 by auto
  with cs2(1,2) show ?case by blast
qed


section \<open>The example blocks, evaluated\<close>

lemma example_block_fields:
  "input0 example_block =
     \<lparr>in_dtype = DType_of (Scalar Int32) 2, in_buffer = [1, 2, 3, 4, 5, 6, 7, 8],
      in_elements = 4, in_consumed = 0\<rparr>"
  "output0 example_block =
     \<lparr>out_dtype = DType_of (Scalar Int32) 2, out_buffer = [0, 0, 0, 0, 0, 0, 0, 0],
      out_elements = 4, out_produced = 0\<rparr>"
  "m_constant example_block = 3"
  "m_func example_block = getXPlusKFcn signed_int"
  "calls example_block =
     [SetupInput 0 (DType_of (Scalar Int32) 2), SetupOutput 0 (DType_of (Scalar Int32) 2),
      RegisterCall ''constant'', RegisterCall ''setConstant'',
      RegisterProbe ''constant'', RegisterSignal ''constantChanged'',
      EmitSignal ''constantChanged'' 3]"
  by (simp_all add: example_block_def new_func new_constant new_calls)

lemma example_angle_fields:
  "input0 example_angle =
     \<lparr>in_dtype = DType_of (ComplexOf Int16) 1, in_buffer = [Cplx 1 0, Cplx 0 1],
      in_elements = 2, in_consumed = 0\<rparr>"
  "output0 example_angle =
     \<lparr>out_dtype = DType_of (Scalar Int16) 1, out_buffer = [7, 7, 7],
      out_elements = 2, out_produced = 0\<rparr>"
  "m_fcn example_angle = getAngleFcn (\<lambda>z. 0)"
  "calls example_angle =
     [SetupInput 0 (DType_of (ComplexOf Int16) 1), SetupOutput 0 (DType_of (Scalar Int16) 1)]"
  by (simp_all add: example_angle_def example_helpers_def Angle_new_def Let_def setupInput_def
      setupOutput_def called_def)

lemma example_passes:
  "invoke (getXPlusKFcn signed_int) [1, 2, 3, 4, 5, 6, 7, 8 :: 32 word] k
     [0, 0, 0, 0, 0, 0, 0, 0] 8 =
     Inr [1 + k, 2 + k, 3 + k, 4 + k, 5 + k, 6 + k, 7 + k, 8 + k]"
  "invoke (getXPlusKFcn signed_int) [1, 2, 3 :: 32 word] 3 [0, 0, 0] 2 = Inr [4, 5, 0]"
  "invoke_angle (getAngleFcn (\<lambda>z. 0)) [Cplx 1 0, Cplx 0 1 :: 16 word cplx]
     [7, 7, 7 :: 16 word] 2 = Inr [0, 0, 7]"
  by (simp_all add: invoke_def invoke_angle_def getXPlusKFcn_def getAngleFcn_def
      for_loop.simps lane_def load_def store_def signed_int_def)


section \<open>Kernel passes that fault\<close>

lemma for_loop_lane_faults:
  assumes "m < num" and "num \<le> length inp" and "num \<le> length out"
    and "f (inp ! m) = Inl e"
    and "\<forall>j<num. \<forall>e'. f (inp ! j) = Inl e' \<longrightarrow> e' = e"
  shows "for_loop 0 num (lane inp f) out = Inl e"
proof -
  define l where "l = (LEAST j. \<exists>e'. f (inp ! j) = Inl e')"
  have ex: "\<exists>e'. f (inp ! m) = Inl e'" using assms(4) by blast
  then have l: "\<exists>e'. f (inp ! l) = Inl e'" unfolding l_def by (rule LeastI)
  have lm: "l \<le> m" unfolding l_def using ex by (rule Least_le)
  then have ln: "l < num" using assms(1) by simp
  with l assms(5) have fl: "f (inp ! l) = Inl e" by blast
  have before: "\<forall>j. 0 \<le> j \<and> j < l \<longrightarrow> f (inp ! j) = Inr (projr (f (inp ! j)))"
  proof (intro allI impI)
    fix j assume j: "0 \<le> j \<and> j < l"
    then have "\<not> (\<exists>e'. f (inp ! j) = Inl e')"
      unfolding l_def using not_less_Least by blast
    then show "f (inp ! j) = Inr (projr (f (inp ! j)))"
      by (cases "f (inp ! j)") auto
  qed
  show ?thesis
    by (rule for_loop_lane_fault [OF _ ln assms(2,3) before fl]) simp
qed

lemma signed_int_ops:
  "op_divide signed_int = int_quot" "op_divide unsigned_int = uint_quot"
  by (simp_all add: signed_int_def unsigned_int_def)

lemma lane_results:
  assumes "num \<le> length inp" and "num \<le> length out" and "\<forall>j<num. f (inp ! j) = Inr (g j)"
  shows "\<exists>out'. for_loop 0 num (lane inp f) out = Inr out' \<and> length out' = length out \<and>
           (\<forall>i<num. out' ! i = g i)"
proof -
  from for_loop_lane [OF assms(1,2), of 0 f g] assms(3)
  obtain out' where o: "for_loop 0 num (lane inp f) out = Inr out'" "length out' = length out"
    "\<forall>j<length out. out' ! j = (if 0 \<le> j \<and> j < num then g j else out ! j)"
    by auto
  have "\<forall>i<num. out' ! i = g i" using o(3) assms(2) by auto
  with o(1,2) show ?thesis by blast
qed

text \<open>What \<^verbatim>\<open>Angle.cpp\<close> itself fixes of the angle kernel: lane \<open>i\<close> holds \<open>getAngle(in[i])\<close>.\<close>

lemma angle_kernel_lanes:
  assumes "num \<le> length inp" and "num \<le> length out"
  shows "\<exists>out'. invoke_angle (getAngleFcn getAngle) inp out num = Inr out' \<and>
           length out' = length out \<and> (\<forall>i<num. out' ! i = getAngle (inp ! i))"
  using lane_results [OF assms, of "\<lambda>x. Inr (getAngle x)" "\<lambda>i. getAngle (inp ! i)"]
  by (simp add: invoke_angle_def getAngleFcn_def)


section \<open>The claims\<close>

text \<open>
  C1. Over buffers that hold at least \<open>num\<close> elements, the kernel of \<open>"X+K"\<close> returns with
  \<open>out[i] = in[i] + k\<close> and the kernel of \<open>"K-X"\<close> with \<open>out[i] = k - in[i]\<close> in every lane
  \<open>i < num\<close>, for any element type and its own \<open>+\<close> and \<open>-\<close>; the lanes from \<open>num\<close> on keep what
  they held. With the constant 3 the input \<open>[1, 2, -3]\<close> gives \<open>[4, 5, 0]\<close> under \<open>"X+K"\<close>, and
  with the constant 10 the \<open>int32\<close> input \<open>[1, 2, 3]\<close> gives \<open>[9, 8, 7]\<close> under \<open>"K-X"\<close>. The
  first example is evaluated in the reals: its operands and sums are integers of less than
  24 bits, which 32-bit floats hold exactly, so the two additions agree on them.
\<close>

theorem XPlusK_KSubX_lanes:
  fixes T :: "'a arith"
  shows
    "(num \<le> length inp \<and> num \<le> length out \<longrightarrow>
        (\<exists>out'. invoke (getXPlusKFcn T) inp k out num = Inr out' \<and> length out' = length out \<and>
           (\<forall>i<num. out' ! i = op_plus T (inp ! i) k) \<and>
           (\<forall>i. num \<le> i \<and> i < length out \<longrightarrow> out' ! i = out ! i)) \<and>
        (\<exists>out'. invoke (getKSubXFcn T) inp k out num = Inr out' \<and> length out' = length out \<and>
           (\<forall>i<num. out' ! i = op_minus T k (inp ! i)) \<and>
           (\<forall>i. num \<le> i \<and> i < length out \<longrightarrow> out' ! i = out ! i))) \<and>
     invoke (getXPlusKFcn real_arith) [1, 2, - 3] 3 [0, 0, 0] 3 = Inr [4, 5, 0] \<and>
     invoke (getKSubXFcn signed_int) [1, 2, 3 :: 32 word] 10 [0, 0, 0] 3 = Inr [9, 8, 7]"
proof -
  have generic: "\<exists>out'. for_loop 0 num (lane inp (\<lambda>x. Inr (g x))) out = Inr out' \<and>
      length out' = length out \<and> (\<forall>i<num. out' ! i = g (inp ! i)) \<and>
      (\<forall>i. num \<le> i \<and> i < length out \<longrightarrow> out' ! i = out ! i)"
    if "num \<le> length inp" "num \<le> length out" for g :: "'a \<Rightarrow> 'a"
  proof -
    from for_loop_lane [OF that, of 0 "\<lambda>x. Inr (g x)" "\<lambda>j. g (inp ! j)"]
    obtain out' where o: "for_loop 0 num (lane inp (\<lambda>x. Inr (g x))) out = Inr out'"
      "length out' = length out"
      "\<forall>j<length out. out' ! j = (if 0 \<le> j \<and> j < num then g (inp ! j) else out ! j)"
      by auto
    have "\<forall>i<num. out' ! i = g (inp ! i)" using o(3) that(2) by auto
    moreover have "\<forall>i. num \<le> i \<and> i < length out \<longrightarrow> out' ! i = out ! i" using o(3) by auto
    ultimately show ?thesis using o(1,2) by blast
  qed
  have "invoke (getXPlusKFcn real_arith) [1, 2, - 3] 3 [0, 0, 0] 3 = Inr [4, 5, 0]"
    by (simp add: invoke_def getXPlusKFcn_def for_loop.simps lane_def load_def store_def
        real_arith_def)
  moreover have "invoke (getKSubXFcn signed_int) [1, 2, 3 :: 32 word] 10 [0, 0, 0] 3 = Inr [9, 8, 7]"
    by (simp add: invoke_def getKSubXFcn_def for_loop.simps lane_def load_def store_def
        signed_int_def)
  ultimately show ?thesis
    using generic [of "\<lambda>x. op_plus T x k"] generic [of "\<lambda>x. op_minus T k x"]
    by (simp add: invoke_def getXPlusKFcn_def getKSubXFcn_def)
qed

theorem XPlusK_KSubX_lanes_witness:
  "(2 :: nat) \<le> length [5, 7 :: 8 word] \<and> (2 :: nat) \<le> length [0, 0, 9 :: 8 word] \<and>
   (\<exists>out'. invoke (getXPlusKFcn unsigned_int) [5, 7 :: 8 word] 250 [0, 0, 9] 2 = Inr out' \<and>
      length out' = 3 \<and> out' ! 0 = 255 \<and> out' ! 1 = 1 \<and> out' ! 2 = 9) \<and>
   (\<exists>out'. invoke (getKSubXFcn unsigned_int) [5, 7 :: 8 word] 250 [0, 0, 9] 2 = Inr out' \<and>
      length out' = 3 \<and> out' ! 0 = 245 \<and> out' ! 1 = 243 \<and> out' ! 2 = 9)"
proof -
  let ?T = "unsigned_int :: 8 word arith"
  have h: "(2 :: nat) \<le> length [5, 7 :: 8 word] \<and> (2 :: nat) \<le> length [0, 0, 9 :: 8 word]"
    by simp
  from XPlusK_KSubX_lanes [of 2 "[5, 7 :: 8 word]" "[0, 0, 9]" ?T 250] h
  obtain p q where p: "invoke (getXPlusKFcn ?T) [5, 7] 250 [0, 0, 9] 2 = Inr p"
      "length p = length [0, 0, 9 :: 8 word]" "\<forall>i<2. p ! i = op_plus ?T ([5, 7] ! i) 250"
      "\<forall>i. 2 \<le> i \<and> i < length [0, 0, 9 :: 8 word] \<longrightarrow> p ! i = [0, 0, 9 :: 8 word] ! i"
    and q: "invoke (getKSubXFcn ?T) [5, 7] 250 [0, 0, 9] 2 = Inr q"
      "length q = length [0, 0, 9 :: 8 word]" "\<forall>i<2. q ! i = op_minus ?T 250 ([5, 7] ! i)"
      "\<forall>i. 2 \<le> i \<and> i < length [0, 0, 9 :: 8 word] \<longrightarrow> q ! i = [0, 0, 9 :: 8 word] ! i"
    by blast
  have "p ! 0 = 255" "p ! 1 = 1" using p(3) by (simp_all add: unsigned_int_def)
  moreover have "p ! 2 = 9" using p(4) by simp
  moreover have "q ! 0 = 245" "q ! 1 = 243" using q(3) by (simp_all add: unsigned_int_def)
  moreover have "q ! 2 = 9" using q(4) by simp
  ultimately show ?thesis using h p(1,2) q(1,2) by simp
qed

text \<open>
  C3. A step that finds \<open>n > 0\<close> elements and whose kernel pass returns makes five calls in
  this order: the input buffer, the output buffer, the kernel with the count \<open>n * D\<close>,
  \<open>consume(n)\<close> on the input port, \<open>produce(n)\<close> on the output port; the ports have then
  consumed and produced \<open>n\<close> more, and the output buffer is the one the kernel returned. A
  kernel pass that faults ends the step with that fault, nothing consumed or produced. This
  holds for both blocks, whatever their dimension and element type. A pass of any of the
  seven kernels with the count \<open>n * D\<close> that returns has stayed inside both buffers and has
  left the output from element \<open>n * D\<close> on as it was. The count is in elements of \<open>T\<close>; for
  a complex \<open>T\<close> these \<open>n * D\<close> elements are the first \<open>n * D * 2\<close> scalar lanes of the buffer.
\<close>

theorem step_consumes_and_produces:
  fixes b :: "'a ConstArithmetic" and a :: "('i, 'o) Angle" and T :: "'t arith"
  shows
    "(0 < minElements b \<and>
      invoke (m_func b) (in_buffer (input0 b)) (m_constant b) (out_buffer (output0 b))
        (minElements b * dimension (in_dtype (input0 b))) = Inr buf \<longrightarrow>
        (\<exists>b'. work b = Inr b' \<and>
           in_consumed (input0 b') = in_consumed (input0 b) + minElements b \<and>
           out_produced (output0 b') = out_produced (output0 b) + minElements b \<and>
           out_buffer (output0 b') = buf \<and>
           calls b' = calls b @
             [InputBuffer 0, OutputBuffer 0,
              CallFunc (m_constant b) (minElements b * dimension (in_dtype (input0 b))),
              Consume 0 (minElements b), Produce 0 (minElements b)])) \<and>
     (0 < minElements b \<and>
      invoke (m_func b) (in_buffer (input0 b)) (m_constant b) (out_buffer (output0 b))
        (minElements b * dimension (in_dtype (input0 b))) = Inl e \<longrightarrow>
        work b = Inl e) \<and>
     (0 < minElements a \<and>
      invoke_angle (m_fcn a) (in_buffer (input0 a)) (out_buffer (output0 a))
        (minElements a * dimension (in_dtype (input0 a))) = Inr abuf \<longrightarrow>
        (\<exists>a'. Angle_work a = Inr a' \<and>
           in_consumed (input0 a') = in_consumed (input0 a) + minElements a \<and>
           out_produced (output0 a') = out_produced (output0 a) + minElements a \<and>
           out_buffer (output0 a') = abuf \<and>
           calls a' = calls a @
             [InputBuffer 0, OutputBuffer 0,
              CallFcn (minElements a * dimension (in_dtype (input0 a))),
              Consume 0 (minElements a), Produce 0 (minElements a)])) \<and>
     (0 < minElements a \<and>
      invoke_angle (m_fcn a) (in_buffer (input0 a)) (out_buffer (output0 a))
        (minElements a * dimension (in_dtype (input0 a))) = Inl e' \<longrightarrow>
        Angle_work a = Inl e') \<and>
     (fp \<in> set [getXPlusKFcn T, getXSubKFcn T, getKSubXFcn T, getXMultKFcn T,
                 getXDivKFcn T, getKDivXFcn T] \<and>
      invoke fp inp k out (n * D) = Inr out' \<longrightarrow>
        n * D \<le> length inp \<and> n * D \<le> length out \<and> length out' = length out \<and>
        drop (n * D) out' = drop (n * D) out) \<and>
     (invoke_angle (getAngleFcn getAngle) zin aout (n * D) = Inr aout' \<longrightarrow>
        n * D \<le> length zin \<and> n * D \<le> length aout \<and> length aout' = length aout \<and>
        drop (n * D) aout' = drop (n * D) aout) \<and>
     scalar_lanes (take (n * D) zs) = take (n * D * 2) (scalar_lanes zs) \<and>
     (n * D \<le> length zs \<longrightarrow> length (scalar_lanes (take (n * D) zs)) = n * D * 2)"
proof -
  have "fp \<in> set [getXPlusKFcn T, getXSubKFcn T, getKSubXFcn T, getXMultKFcn T,
                  getXDivKFcn T, getKDivXFcn T] \<and>
        invoke fp inp k out (n * D) = Inr out' \<longrightarrow>
        n * D \<le> length inp \<and> n * D \<le> length out \<and> length out' = length out \<and>
        drop (n * D) out' = drop (n * D) out"
    by (auto simp: invoke_def getXPlusKFcn_def getXSubKFcn_def getKSubXFcn_def
        getXMultKFcn_def getXDivKFcn_def getKDivXFcn_def dest!: kernel_pass_exact)
  moreover have "invoke_angle (getAngleFcn getAngle) zin aout (n * D) = Inr aout' \<longrightarrow>
        n * D \<le> length zin \<and> n * D \<le> length aout \<and> length aout' = length aout \<and>
        drop (n * D) aout' = drop (n * D) aout"
    by (auto simp: invoke_angle_def getAngleFcn_def dest!: kernel_pass_exact)
  moreover have "n * D \<le> length zs \<longrightarrow> length (scalar_lanes (take (n * D) zs)) = n * D * 2"
    by (simp add: scalar_lanes_length)
  ultimately show ?thesis
    by (simp add: work_step Angle_work_step scalar_lanes_take)
qed

theorem step_consumes_and_produces_witness:
  "0 < minElements example_block \<and>
   invoke (m_func example_block) (in_buffer (input0 example_block)) (m_constant example_block)
     (out_buffer (output0 example_block))
     (minElements example_block * dimension (in_dtype (input0 example_block))) =
     Inr [4, 5, 6, 7, 8, 9, 10, 11] \<and>
   (\<exists>b'. work example_block = Inr b' \<and> in_consumed (input0 b') = 4 \<and>
      out_produced (output0 b') = 4 \<and> out_buffer (output0 b') = [4, 5, 6, 7, 8, 9, 10, 11] \<and>
      drop 7 (calls b') =
        [InputBuffer 0, OutputBuffer 0, CallFunc 3 8, Consume 0 4, Produce 0 4]) \<and>
   0 < minElements (example_block\<lparr>m_func := None\<rparr>) \<and>
   work (example_block\<lparr>m_func := None\<rparr>) = Inl NullPointer \<and>
   0 < minElements example_angle \<and>
   (\<exists>a'. Angle_work example_angle = Inr a' \<and> in_consumed (input0 a') = 2 \<and>
      out_produced (output0 a') = 2 \<and> out_buffer (output0 a') = [0, 0, 7] \<and>
      drop 2 (calls a') = [InputBuffer 0, OutputBuffer 0, CallFcn 2, Consume 0 2, Produce 0 2]) \<and>
   0 < minElements (example_angle\<lparr>m_fcn := None\<rparr>) \<and>
   Angle_work (example_angle\<lparr>m_fcn := None\<rparr>) = Inl NullPointer \<and>
   getXPlusKFcn signed_int \<in> set [getXPlusKFcn signed_int, getXSubKFcn signed_int,
     getKSubXFcn signed_int, getXMultKFcn signed_int, getXDivKFcn signed_int,
     getKDivXFcn signed_int] \<and>
   invoke (getXPlusKFcn signed_int) [1, 2, 3 :: 32 word] 3 [0, 0, 0] (1 * 2) = Inr [4, 5, 0] \<and>
   drop (1 * 2) [4, 5, 0 :: 32 word] = drop (1 * 2) [0, 0, 0] \<and>
   invoke_angle (getAngleFcn (getAngle_int16 example_helpers)) [Cplx 1 0, Cplx 0 1] [7, 7, 7]
     (2 * 1) = Inr [0, 0, 7] \<and>
   drop (2 * 1) [0, 0, 7 :: 16 word] = drop (2 * 1) [7, 7, 7] \<and>
   2 * 1 \<le> length [Cplx 1 0, Cplx 0 1 :: 16 word cplx] \<and>
   length (scalar_lanes (take (2 * 1) [Cplx 1 0, Cplx 0 1 :: 16 word cplx])) = 2 * 1 * 2"
proof -
  let ?buf = "[4, 5, 6, 7, 8, 9, 10, 11 :: 32 word]"
  let ?nb = "example_block\<lparr>m_func := None\<rparr>"
  let ?na = "example_angle\<lparr>m_fcn := None\<rparr>"
  let ?zs = "[Cplx 1 0, Cplx 0 1 :: 16 word cplx]"
  have h1: "0 < minElements example_block \<and>
      invoke (m_func example_block) (in_buffer (input0 example_block))
        (m_constant example_block) (out_buffer (output0 example_block))
        (minElements example_block * dimension (in_dtype (input0 example_block))) = Inr ?buf"
    by (simp add: example_block_fields minElements_def DType_of_def example_passes)
  have h2: "0 < minElements ?nb \<and>
      invoke (m_func ?nb) (in_buffer (input0 ?nb)) (m_constant ?nb) (out_buffer (output0 ?nb))
        (minElements ?nb * dimension (in_dtype (input0 ?nb))) = Inl NullPointer"
    by (simp add: example_block_fields minElements_def invoke_def)
  have h3: "0 < minElements example_angle \<and>
      invoke_angle (m_fcn example_angle) (in_buffer (input0 example_angle))
        (out_buffer (output0 example_angle))
        (minElements example_angle * dimension (in_dtype (input0 example_angle))) =
        Inr [0, 0, 7]"
    by (simp add: example_angle_fields minElements_def DType_of_def example_passes)
  have h4: "0 < minElements ?na \<and>
      invoke_angle (m_fcn ?na) (in_buffer (input0 ?na)) (out_buffer (output0 ?na))
        (minElements ?na * dimension (in_dtype (input0 ?na))) = Inl NullPointer"
    by (simp add: example_angle_fields minElements_def invoke_angle_def)
  have h5: "getXPlusKFcn signed_int \<in> set [getXPlusKFcn signed_int, getXSubKFcn signed_int,
      getKSubXFcn signed_int, getXMultKFcn signed_int, getXDivKFcn signed_int,
      getKDivXFcn signed_int] \<and>
      invoke (getXPlusKFcn signed_int) [1, 2, 3 :: 32 word] 3 [0, 0, 0] (1 * 2) = Inr [4, 5, 0]"
    by (simp add: example_passes)
  have h6: "invoke_angle (getAngleFcn (getAngle_int16 example_helpers)) ?zs [7, 7, 7]
      (2 * 1) = Inr [0, 0, 7]"
    by (simp add: example_helpers_def example_passes)
  have h7: "2 * 1 \<le> length ?zs" by simp
  have c1: "\<exists>b'. work example_block = Inr b' \<and> in_consumed (input0 b') = 4 \<and>
      out_produced (output0 b') = 4 \<and> out_buffer (output0 b') = ?buf \<and>
      drop 7 (calls b') =
        [InputBuffer 0, OutputBuffer 0, CallFunc 3 8, Consume 0 4, Produce 0 4]"
  proof -
    from step_consumes_and_produces [where b = example_block and buf = ?buf,
        THEN conjunct1, rule_format, OF h1]
    obtain b' where b': "work example_block = Inr b'"
      "in_consumed (input0 b') = in_consumed (input0 example_block) + minElements example_block"
      "out_produced (output0 b') =
         out_produced (output0 example_block) + minElements example_block"
      "out_buffer (output0 b') = ?buf"
      "calls b' = calls example_block @
         [InputBuffer 0, OutputBuffer 0,
          CallFunc (m_constant example_block)
            (minElements example_block * dimension (in_dtype (input0 example_block))),
          Consume 0 (minElements example_block), Produce 0 (minElements example_block)]"
      by blast
    from b'(2,3,5) have "in_consumed (input0 b') = 4" "out_produced (output0 b') = 4"
      "drop 7 (calls b') =
         [InputBuffer 0, OutputBuffer 0, CallFunc 3 8, Consume 0 4, Produce 0 4]"
      by (simp_all add: example_block_fields minElements_def DType_of_def)
    with b'(1,4) show ?thesis by blast
  qed
  have c2: "work ?nb = Inl NullPointer"
    by (rule step_consumes_and_produces [where b = ?nb and e = NullPointer,
          THEN conjunct2, THEN conjunct1, rule_format, OF h2])
  have c3: "\<exists>a'. Angle_work example_angle = Inr a' \<and> in_consumed (input0 a') = 2 \<and>
      out_produced (output0 a') = 2 \<and> out_buffer (output0 a') = [0, 0, 7] \<and>
      drop 2 (calls a') = [InputBuffer 0, OutputBuffer 0, CallFcn 2, Consume 0 2, Produce 0 2]"
  proof -
    from step_consumes_and_produces [where a = example_angle and abuf = "[0, 0, 7]",
        THEN conjunct2, THEN conjunct2, THEN conjunct1, rule_format, OF h3]
    obtain a' where a': "Angle_work example_angle = Inr a'"
      "in_consumed (input0 a') = in_consumed (input0 example_angle) + minElements example_angle"
      "out_produced (output0 a') =
         out_produced (output0 example_angle) + minElements example_angle"
      "out_buffer (output0 a') = [0, 0, 7]"
      "calls a' = calls example_angle @
         [InputBuffer 0, OutputBuffer 0,
          CallFcn (minElements example_angle * dimension (in_dtype (input0 example_angle))),
          Consume 0 (minElements example_angle), Produce 0 (minElements example_angle)]"
      by blast
    from a'(2,3,5) have "in_consumed (input0 a') = 2" "out_produced (output0 a') = 2"
      "drop 2 (calls a') = [InputBuffer 0, OutputBuffer 0, CallFcn 2, Consume 0 2, Produce 0 2]"
      by (simp_all add: example_angle_fields minElements_def DType_of_def)
    with a'(1,4) show ?thesis by blast
  qed
  have c4: "Angle_work ?na = Inl NullPointer"
    by (rule step_consumes_and_produces [where a = ?na and e' = NullPointer,
          THEN conjunct2, THEN conjunct2, THEN conjunct2, THEN conjunct1, rule_format, OF h4])
  have c5: "drop (1 * 2) [4, 5, 0 :: 32 word] = drop (1 * 2) [0, 0, 0]"
    using step_consumes_and_produces [where fp = "getXPlusKFcn signed_int"
        and T = "signed_int :: 32 word arith" and inp = "[1, 2, 3]" and k = 3
        and out = "[0, 0, 0]" and n = 1 and D = 2 and out' = "[4, 5, 0]",
        THEN conjunct2, THEN conjunct2, THEN conjunct2, THEN conjunct2, THEN conjunct1, rule_format, OF h5]
    by blast
  have c6: "drop (2 * 1) [0, 0, 7 :: 16 word] = drop (2 * 1) [7, 7, 7]"
    using step_consumes_and_produces [where getAngle = "getAngle_int16 example_helpers"
        and zin = ?zs and aout = "[7, 7, 7]" and n = 2 and D = 1 and aout' = "[0, 0, 7]",
        THEN conjunct2, THEN conjunct2, THEN conjunct2, THEN conjunct2, THEN conjunct2, THEN conjunct1, rule_format, OF h6]
    by blast
  have c7: "length (scalar_lanes (take (2 * 1) ?zs)) = 2 * 1 * 2"
    by (rule step_consumes_and_produces [where n = 2 and D = 1 and zs = ?zs,
          THEN conjunct2, THEN conjunct2, THEN conjunct2, THEN conjunct2, THEN conjunct2, THEN conjunct2, THEN conjunct2, rule_format, OF h7])
  have "0 < minElements example_block" "0 < minElements ?nb" "0 < minElements example_angle"
    "0 < minElements ?na"
    using h1 h2 h3 h4 by blast+
  moreover have "invoke (m_func example_block) (in_buffer (input0 example_block))
      (m_constant example_block) (out_buffer (output0 example_block))
      (minElements example_block * dimension (in_dtype (input0 example_block))) = Inr ?buf"
    using h1 by blast
  moreover have "getXPlusKFcn signed_int \<in> set [getXPlusKFcn signed_int,
      getXSubKFcn signed_int, getKSubXFcn signed_int, getXMultKFcn signed_int,
      getXDivKFcn signed_int, getKDivXFcn signed_int]"
    "invoke (getXPlusKFcn signed_int) [1, 2, 3 :: 32 word] 3 [0, 0, 0] (1 * 2) = Inr [4, 5, 0]"
    using h5 by blast+
  ultimately show ?thesis
    using c1 c2 c3 c4 c5 c6 c7 h6 h7 by (intro conjI)
qed

text \<open>
  C4. A step that finds no element returns at once, in either block: the block it leaves is
  the block it found, with no call added and no buffer, counter or member changed.
\<close>

theorem idle_step_changes_nothing:
  fixes b :: "'a ConstArithmetic" and a :: "('i, 'o) Angle"
  shows "(minElements b = 0 \<longrightarrow> work b = Inr b) \<and> (minElements a = 0 \<longrightarrow> Angle_work a = Inr a)"
  by (simp add: work_idle Angle_work_idle)

theorem idle_step_changes_nothing_witness:
  "minElements (example_block\<lparr>input0 := unset_input\<rparr>) = 0 \<and>
   work (example_block\<lparr>input0 := unset_input\<rparr>) = Inr (example_block\<lparr>input0 := unset_input\<rparr>) \<and>
   minElements (example_angle\<lparr>output0 := unset_output\<rparr>) = 0 \<and>
   Angle_work (example_angle\<lparr>output0 := unset_output\<rparr>) =
     Inr (example_angle\<lparr>output0 := unset_output\<rparr>)"
proof -
  have h: "minElements (example_block\<lparr>input0 := unset_input\<rparr>) = 0"
    "minElements (example_angle\<lparr>output0 := unset_output\<rparr>) = 0"
    by (simp_all add: minElements_def unset_input_def unset_output_def)
  with idle_step_changes_nothing [of "example_block\<lparr>input0 := unset_input\<rparr>"
      "example_angle\<lparr>output0 := unset_output\<rparr>"]
  show ?thesis by blast
qed

text \<open>
  C5. \<open>setConstant(v)\<close> stores \<open>v\<close> and then raises \<open>"constantChanged"\<close> once, carrying \<open>v\<close>,
  whatever the constant was before, equal to \<open>v\<close> or not; the getter then returns \<open>v\<close> and
  leaves the block as it is. A step after it passes \<open>v\<close> to the kernel and leaves in the
  output buffer what the kernel computes from \<open>v\<close>; and in any run of steps that follows,
  with the host refilling the ports in between, every kernel call carries \<open>v\<close>, no further
  signal is raised and the constant stays \<open>v\<close>.
\<close>

theorem setConstant_notifies_and_is_used:
  fixes b :: "'a ConstArithmetic"
  shows
    "setConstant v b = b\<lparr>calls := calls b @ [EmitSignal ''constantChanged'' v], m_constant := v\<rparr> \<and>
     filter is_signal (calls (setConstant v b)) =
       filter is_signal (calls b) @ [EmitSignal ''constantChanged'' v] \<and>
     getConstant (setConstant v b) = (v, setConstant v b) \<and>
     (0 < minElements b \<and> work (setConstant v b) = Inr b' \<longrightarrow>
        invoke (m_func b) (in_buffer (input0 b)) v (out_buffer (output0 b))
          (minElements b * dimension (in_dtype (input0 b))) = Inr (out_buffer (output0 b')) \<and>
        calls b' = calls (setConstant v b) @
          [InputBuffer 0, OutputBuffer 0,
           CallFunc v (minElements b * dimension (in_dtype (input0 b))),
           Consume 0 (minElements b), Produce 0 (minElements b)]) \<and>
     (run ps (setConstant v b) = Inr b'' \<longrightarrow>
        m_constant b'' = v \<and> fst (getConstant b'') = v \<and>
        (\<exists>cs. calls b'' = calls b @ [EmitSignal ''constantChanged'' v] @ cs \<and>
              filter is_signal cs = [] \<and> (\<forall>k n. CallFunc k n \<in> set cs \<longrightarrow> k = v)))"
proof -
  have s: "setConstant v b =
      b\<lparr>calls := calls b @ [EmitSignal ''constantChanged'' v], m_constant := v\<rparr>"
    by (simp add: setConstant_def emitSignal_def called_def)
  have step: "invoke (m_func b) (in_buffer (input0 b)) v (out_buffer (output0 b))
        (minElements b * dimension (in_dtype (input0 b))) = Inr (out_buffer (output0 b')) \<and>
      calls b' = calls (setConstant v b) @
        [InputBuffer 0, OutputBuffer 0,
         CallFunc v (minElements b * dimension (in_dtype (input0 b))),
         Consume 0 (minElements b), Produce 0 (minElements b)]"
    if n: "0 < minElements b" and w: "work (setConstant v b) = Inr b'"
  proof -
    have m: "minElements (setConstant v b) = minElements b"
      by (simp add: s minElements_def)
    then have "0 < minElements (setConstant v b)" using n by simp
    from w [unfolded work_step [OF this]] show ?thesis
      by (auto simp: s minElements_def split: sum.splits)
  qed
  have steps: "m_constant b'' = v \<and> fst (getConstant b'') = v \<and>
      (\<exists>cs. calls b'' = calls b @ [EmitSignal ''constantChanged'' v] @ cs \<and>
            filter is_signal cs = [] \<and> (\<forall>k n. CallFunc k n \<in> set cs \<longrightarrow> k = v))"
    if r: "run ps (setConstant v b) = Inr b''"
  proof -
    from run_keeps [OF r] obtain cs where cs: "m_constant b'' = m_constant (setConstant v b)"
      "calls b'' = calls (setConstant v b) @ cs" "filter is_signal cs = []"
      "\<forall>k n. CallFunc k n \<in> set cs \<longrightarrow> k = m_constant (setConstant v b)"
      by blast
    have "m_constant (setConstant v b) = v"
      "calls (setConstant v b) = calls b @ [EmitSignal ''constantChanged'' v]"
      by (simp_all add: s)
    with cs show ?thesis by (auto simp: getConstant_def)
  qed
  have c2: "filter is_signal (calls (setConstant v b)) =
      filter is_signal (calls b) @ [EmitSignal ''constantChanged'' v]"
    by (simp add: s)
  have c3: "getConstant (setConstant v b) = (v, setConstant v b)"
    by (simp add: getConstant_def s)
  have c4: "0 < minElements b \<and> work (setConstant v b) = Inr b' \<longrightarrow>
      invoke (m_func b) (in_buffer (input0 b)) v (out_buffer (output0 b))
        (minElements b * dimension (in_dtype (input0 b))) = Inr (out_buffer (output0 b')) \<and>
      calls b' = calls (setConstant v b) @
        [InputBuffer 0, OutputBuffer 0,
         CallFunc v (minElements b * dimension (in_dtype (input0 b))),
         Consume 0 (minElements b), Produce 0 (minElements b)]"
    using step by blast
  have c5: "run ps (setConstant v b) = Inr b'' \<longrightarrow>
      m_constant b'' = v \<and> fst (getConstant b'') = v \<and>
      (\<exists>cs. calls b'' = calls b @ [EmitSignal ''constantChanged'' v] @ cs \<and>
            filter is_signal cs = [] \<and> (\<forall>k n. CallFunc k n \<in> set cs \<longrightarrow> k = v))"
    using steps by blast
  show ?thesis by (intro conjI) (fact s c2 c3 c4 c5)+
qed

theorem setConstant_notifies_and_is_used_witness:
  "0 < minElements example_block \<and>
   (\<exists>b'. work (setConstant 5 example_block) = Inr b' \<and>
      out_buffer (output0 b') = [6, 7, 8, 9, 10, 11, 12, 13] \<and>
      drop 8 (calls b') =
        [InputBuffer 0, OutputBuffer 0, CallFunc 5 8, Consume 0 4, Produce 0 4]) \<and>
   (\<exists>b''. run [(input0 example_block, output0 example_block),
               (input0 example_block, output0 example_block)]
             (setConstant 5 example_block) = Inr b'' \<and>
      m_constant b'' = 5 \<and> fst (getConstant b'') = 5 \<and>
      (\<exists>cs. calls b'' = calls example_block @ [EmitSignal ''constantChanged'' 5] @ cs \<and>
            filter is_signal cs = []))"
proof -
  let ?s = "setConstant 5 example_block"
  let ?ps = "[(input0 example_block, output0 example_block),
              (input0 example_block, output0 example_block)]"
  have n: "0 < minElements example_block"
    by (simp add: example_block_fields minElements_def)
  have fields: "input0 ?s = input0 example_block" "output0 ?s = output0 example_block"
    "m_func ?s = m_func example_block" "m_constant ?s = 5"
    by (simp_all add: setConstant_def emitSignal_def called_def)
  have "0 < minElements ?s"
    by (simp add: fields example_block_fields minElements_def)
  from work_step [OF this] obtain b' where w: "work ?s = Inr b'"
    by (simp add: fields example_block_fields minElements_def DType_of_def example_passes)
  from setConstant_notifies_and_is_used [where v = 5 and b = example_block and b' = b',
      THEN conjunct2, THEN conjunct2, THEN conjunct2, THEN conjunct1, rule_format,
      OF conjI [OF n w]]
  have u: "invoke (m_func example_block) (in_buffer (input0 example_block)) 5
        (out_buffer (output0 example_block))
        (minElements example_block * dimension (in_dtype (input0 example_block))) =
        Inr (out_buffer (output0 b'))"
    "calls b' = calls ?s @
       [InputBuffer 0, OutputBuffer 0,
        CallFunc 5 (minElements example_block * dimension (in_dtype (input0 example_block))),
        Consume 0 (minElements example_block), Produce 0 (minElements example_block)]"
    by blast+
  from u(1) have o: "out_buffer (output0 b') = [6, 7, 8, 9, 10, 11, 12, 13]"
    by (simp add: example_block_fields minElements_def DType_of_def example_passes)
  from u(2) have c: "drop 8 (calls b') =
      [InputBuffer 0, OutputBuffer 0, CallFunc 5 8, Consume 0 4, Produce 0 4]"
    by (simp add: example_block_fields minElements_def DType_of_def setConstant_def
        emitSignal_def called_def)
  have k: "m_func b' = m_func example_block" "m_constant b' = 5"
    using work_keeps [OF w] fields by simp_all
  let ?b1 = "b'\<lparr>input0 := input0 example_block, output0 := output0 example_block\<rparr>"
  have "0 < minElements ?b1"
    by (simp add: example_block_fields minElements_def)
  from work_step [OF this] obtain b2 where w2: "work ?b1 = Inr b2"
    by (simp add: k example_block_fields minElements_def DType_of_def example_passes)
  have same: "?s\<lparr>input0 := input0 example_block, output0 := output0 example_block\<rparr> = ?s"
    by (simp add: setConstant_def emitSignal_def called_def)
  have r: "run ?ps ?s = Inr b2"
    by (simp add: same w w2)
  from setConstant_notifies_and_is_used [where v = 5 and b = example_block and ps = ?ps
      and b'' = b2, THEN conjunct2, THEN conjunct2, THEN conjunct2, THEN conjunct2,
      rule_format, OF r]
  have "m_constant b2 = 5 \<and> fst (getConstant b2) = 5 \<and>
      (\<exists>cs. calls b2 = calls example_block @ [EmitSignal ''constantChanged'' 5] @ cs \<and>
            filter is_signal cs = [])"
    by blast
  with r n w o c show ?thesis by blast
qed

text \<open>
  C9. The constructor ends in the setter: of the seven calls it makes the last, and the only
  one that raises a signal, is \<open>"constantChanged"\<close> with the initial constant, which the new
  block holds; the signal is raised after it has been registered.
\<close>

theorem constructor_notifies_once:
  "calls (ConstArithmetic_new tid T func c d) =
     [SetupInput 0 (DType_of tid d), SetupOutput 0 (DType_of tid d),
      RegisterCall ''constant'', RegisterCall ''setConstant'',
      RegisterProbe ''constant'', RegisterSignal ''constantChanged'',
      EmitSignal ''constantChanged'' c] \<and>
   filter is_signal (calls (ConstArithmetic_new tid T func c d)) =
     [EmitSignal ''constantChanged'' c] \<and>
   m_constant (ConstArithmetic_new tid T func c d) = c \<and>
   ConstArithmetic_new tid T func c d =
     setConstant c
       (ConstArithmetic_new tid T func c d
          \<lparr>calls := butlast (calls (ConstArithmetic_new tid T func c d)),
           m_constant := op_zero T\<rparr>)"
  by (simp add: new_calls new_constant)
    (simp add: ConstArithmetic_new_def Let_def setConstant_def emitSignal_def called_def
      setupInput_def setupOutput_def)

text \<open>
  C10. A step that returns leaves \<^verbatim>\<open>_constant\<close> and \<^verbatim>\<open>_func\<close> as they were, for every block and
  every number of elements, and so does any run of steps; the getter changes nothing; the
  setter changes the constant and leaves the kernel pointer. (A step whose kernel faults
  leaves no block to speak of.)
\<close>

theorem step_keeps_constant_and_kernel:
  fixes b :: "'a ConstArithmetic"
  shows
    "(work b = Inr b' \<longrightarrow> m_constant b' = m_constant b \<and> m_func b' = m_func b) \<and>
     (run ps b = Inr b'' \<longrightarrow> m_constant b'' = m_constant b \<and> m_func b'' = m_func b) \<and>
     snd (getConstant b) = b \<and>
     m_func (setConstant v b) = m_func b \<and> m_constant (setConstant v b) = v"
proof -
  have "work b = Inr b' \<longrightarrow> m_constant b' = m_constant b \<and> m_func b' = m_func b"
    using work_keeps [of b b'] by blast
  moreover have "run ps b = Inr b'' \<longrightarrow> m_constant b'' = m_constant b \<and> m_func b'' = m_func b"
    using run_keeps [of ps b b''] by blast
  ultimately show ?thesis
    by (simp add: getConstant_def setConstant_def emitSignal_def called_def)
qed

theorem step_keeps_constant_and_kernel_witness:
  "\<exists>b'. work example_block = Inr b' \<and>
     run [(input0 example_block, output0 example_block)] example_block = Inr b' \<and>
     m_constant b' = 3 \<and> m_func b' = getXPlusKFcn signed_int"
proof -
  have "0 < minElements example_block"
    by (simp add: example_block_fields minElements_def)
  from work_step [OF this] obtain b' where w: "work example_block = Inr b'"
    by (simp add: example_block_fields minElements_def DType_of_def example_passes)
  have "example_block\<lparr>input0 := input0 example_block, output0 := output0 example_block\<rparr> =
      example_block"
    by simp
  then have r: "run [(input0 example_block, output0 example_block)] example_block = Inr b'"
    by (simp add: w)
  from step_keeps_constant_and_kernel [where b = example_block and b' = b',
      THEN conjunct1, rule_format, OF w]
    step_keeps_constant_and_kernel [where b = example_block and b'' = b'
      and ps = "[(input0 example_block, output0 example_block)]",
      THEN conjunct2, THEN conjunct1, rule_format, OF r]
  have "m_constant b' = 3 \<and> m_func b' = getXPlusKFcn signed_int"
    by (simp add: example_block_fields)
  with w r show ?thesis by blast
qed

text \<open>
  C6. The claim that construction succeeds for every advertised pair fails where the constant
  does not convert: the pair \<open>int8\<close>, \<open>"X+K"\<close> is advertised, and with an empty object for the
  constant the factory ends in the conversion's exception.
\<close>

theorem advertised_pair_unconvertible_constant:
  "advertised (elemType \<lparr>elemType = Scalar Int8, dimension = 1\<rparr>) ''X+K'' \<and>
   makeConstArithmetic example_libraries \<lparr>elemType = Scalar Int8, dimension = 1\<rparr> ''X+K''
     NullObject = Inl ObjectConvertError"
proof -
  let ?dtype = "\<lparr>elemType = Scalar Int8, dimension = 1\<rparr>"
  have a: "advertised (elemType ?dtype) ''X+K''"
    by (simp add: advertised_def operations_def)
  have "\<not> converts example_libraries (elemType ?dtype) NullObject"
    by (simp add: example_libraries_def example_instance_def)
  with make_advertised [OF a, of example_libraries NullObject] a show ?thesis by simp
qed

text \<open>
  C6, amended. A request outside the advertised set ends in \<open>InvalidArgumentException\<close>,
  which names the factory, the requested descriptor and, for \<^verbatim>\<open>makeConstArithmetic\<close>, the
  operation; the factory returns the exception and no block. An advertised pair whose
  constant converts to the element type gives a block of the requested instantiation with a
  kernel pointer that is not null, and so does every advertised type of \<^verbatim>\<open>angleFactory\<close>.
  Matching ignores the dimension.
\<close>

theorem dispatch_table:
  fixes lib :: "('obj, 'f, 'd) libraries" and hlp :: "('f, 'd) FxptHelpers"
  shows
    "(\<not> advertised (elemType dtype) operation \<longrightarrow>
        makeConstArithmetic lib dtype operation c =
          Inl (InvalidArgumentException ''makeConstArithmetic'' dtype (Some operation)
                 ''unsupported args'')) \<and>
     (\<not> Angle_advertised (elemType dtype) \<longrightarrow>
        angleFactory hlp dtype =
          Inl (InvalidArgumentException ''angleFactory'' dtype None ''unsupported type'')) \<and>
     (advertised (elemType dtype) operation \<and> converts lib (elemType dtype) c \<longrightarrow>
        (\<exists>p. makeConstArithmetic lib dtype operation c = Inr p \<and>
             instantiated_at p = elemType dtype \<and> \<not> kernel_is_null p)) \<and>
     (Angle_advertised (elemType dtype) \<longrightarrow>
        (\<exists>p. angleFactory hlp dtype = Inr p \<and> Angle_instantiated_at p = elemType dtype \<and>
             \<not> Angle_kernel_is_null p))"
proof -
  have c1: "\<not> advertised (elemType dtype) operation \<longrightarrow>
      makeConstArithmetic lib dtype operation c =
        Inl (InvalidArgumentException ''makeConstArithmetic'' dtype (Some operation)
               ''unsupported args'')"
    using make_unsupported [of dtype operation lib c] by blast
  have c2: "\<not> Angle_advertised (elemType dtype) \<longrightarrow>
      angleFactory hlp dtype =
        Inl (InvalidArgumentException ''angleFactory'' dtype None ''unsupported type'')"
    using angle_unsupported [of dtype hlp] by blast
  have c3: "advertised (elemType dtype) operation \<and> converts lib (elemType dtype) c \<longrightarrow>
      (\<exists>p. makeConstArithmetic lib dtype operation c = Inr p \<and>
           instantiated_at p = elemType dtype \<and> \<not> kernel_is_null p)"
  proof (intro impI, elim conjE)
    assume a: "advertised (elemType dtype) operation" "converts lib (elemType dtype) c"
    from make_advertised [OF a(1), of lib c] a(2)
    show "\<exists>p. makeConstArithmetic lib dtype operation c = Inr p \<and>
        instantiated_at p = elemType dtype \<and> \<not> kernel_is_null p"
      by auto
  qed
  have c4: "Angle_advertised (elemType dtype) \<longrightarrow>
      (\<exists>p. angleFactory hlp dtype = Inr p \<and> Angle_instantiated_at p = elemType dtype \<and>
           \<not> Angle_kernel_is_null p)"
    using angle_advertised [of dtype hlp] by blast
  show ?thesis by (intro conjI) (fact c1 c2 c3 c4)+
qed

theorem dispatch_table_witness:
  "\<not> advertised (elemType \<lparr>elemType = Custom, dimension = 1\<rparr>) ''K/X'' \<and>
   makeConstArithmetic example_libraries \<lparr>elemType = Custom, dimension = 1\<rparr> ''K/X''
     (IntObject 5) =
     Inl (InvalidArgumentException ''makeConstArithmetic'' \<lparr>elemType = Custom, dimension = 1\<rparr>
            (Some ''K/X'') ''unsupported args'') \<and>
   \<not> advertised (elemType \<lparr>elemType = Scalar Int8, dimension = 1\<rparr>) ''X%K'' \<and>
   makeConstArithmetic example_libraries \<lparr>elemType = Scalar Int8, dimension = 1\<rparr> ''X%K''
     (IntObject 5) =
     Inl (InvalidArgumentException ''makeConstArithmetic''
            \<lparr>elemType = Scalar Int8, dimension = 1\<rparr> (Some ''X%K'') ''unsupported args'') \<and>
   \<not> Angle_advertised (elemType \<lparr>elemType = Scalar Float32, dimension = 1\<rparr>) \<and>
   angleFactory example_helpers \<lparr>elemType = Scalar Float32, dimension = 1\<rparr> =
     Inl (InvalidArgumentException ''angleFactory'' \<lparr>elemType = Scalar Float32, dimension = 1\<rparr>
            None ''unsupported type'') \<and>
   advertised (elemType \<lparr>elemType = ComplexOf UInt16, dimension = 3\<rparr>) ''K-X'' \<and>
   converts example_libraries (elemType \<lparr>elemType = ComplexOf UInt16, dimension = 3\<rparr>)
     (IntObject 5) \<and>
   (\<exists>p. makeConstArithmetic example_libraries \<lparr>elemType = ComplexOf UInt16, dimension = 3\<rparr>
          ''K-X'' (IntObject 5) = Inr p \<and>
        instantiated_at p = ComplexOf UInt16 \<and> \<not> kernel_is_null p) \<and>
   Angle_advertised (elemType \<lparr>elemType = ComplexOf Int16, dimension = 2\<rparr>) \<and>
   (\<exists>p. angleFactory example_helpers \<lparr>elemType = ComplexOf Int16, dimension = 2\<rparr> = Inr p \<and>
        Angle_instantiated_at p = ComplexOf Int16 \<and> \<not> Angle_kernel_is_null p)"
proof -
  note T = dispatch_table [where lib = example_libraries and hlp = example_helpers]
  let ?custom = "\<lparr>elemType = Custom, dimension = 1\<rparr>"
  let ?int8 = "\<lparr>elemType = Scalar Int8, dimension = 1\<rparr>"
  let ?float = "\<lparr>elemType = Scalar Float32, dimension = 1\<rparr>"
  let ?cu16 = "\<lparr>elemType = ComplexOf UInt16, dimension = 3\<rparr>"
  let ?ci16 = "\<lparr>elemType = ComplexOf Int16, dimension = 2\<rparr>"
  have h1: "\<not> advertised (elemType ?custom) ''K/X''"
    by (simp add: advertised_def)
  have h2: "\<not> advertised (elemType ?int8) ''X%K''"
    by (simp add: advertised_def operations_def)
  have h3: "\<not> Angle_advertised (elemType ?float)"
    by (simp add: Angle_advertised_def)
  have h4: "advertised (elemType ?cu16) ''K-X'' \<and>
      converts example_libraries (elemType ?cu16) (IntObject 5)"
    by (simp add: advertised_def operations_def example_libraries_def example_instance_def)
  have h5: "Angle_advertised (elemType ?ci16)"
    by (simp add: Angle_advertised_def)
  note c1 = T [where dtype = ?custom and operation = "''K/X''" and c = "IntObject 5",
      THEN conjunct1, rule_format, OF h1]
  note c2 = T [where dtype = ?int8 and operation = "''X%K''" and c = "IntObject 5",
      THEN conjunct1, rule_format, OF h2]
  note c3 = T [where dtype = ?float, THEN conjunct2, THEN conjunct1, rule_format, OF h3]
  from T [where dtype = ?cu16 and operation = "''K-X''" and c = "IntObject 5",
      THEN conjunct2, THEN conjunct2, THEN conjunct1, rule_format, OF h4]
  have c4: "\<exists>p. makeConstArithmetic example_libraries ?cu16 ''K-X'' (IntObject 5) = Inr p \<and>
      instantiated_at p = ComplexOf UInt16 \<and> \<not> kernel_is_null p"
    by simp
  from T [where dtype = ?ci16, THEN conjunct2, THEN conjunct2, THEN conjunct2, rule_format,
      OF h5]
  have c5: "\<exists>p. angleFactory example_helpers ?ci16 = Inr p \<and>
      Angle_instantiated_at p = ComplexOf Int16 \<and> \<not> Angle_kernel_is_null p"
    by simp
  from h1 h2 h3 h4 h5 c1 c2 c3 c4 c5 show ?thesis by (intro conjI) blast+
qed

text \<open>
  C7. For an advertised pair the constant is converted to the element type of the requested
  instantiation before the constructor runs. When the conversion throws, the factory ends
  in that exception, \<open>ObjectConvertError\<close> (the specification's \<open>InvalidConstantError\<close>), and
  returns no block. When it gives a value, the block is constructed from it: it holds the
  value, the one signal it has raised carries it, and its ports have the requested type and
  dimension.
\<close>

theorem constant_converted_before_construction:
  fixes lib :: "('obj, 'f, 'd) libraries"
  shows
    "(advertised (elemType dtype) operation \<and> \<not> converts lib (elemType dtype) c \<longrightarrow>
        makeConstArithmetic lib dtype operation c = Inl ObjectConvertError) \<and>
     (advertised (elemType dtype) operation \<and> converts lib (elemType dtype) c \<longrightarrow>
        (\<exists>p. makeConstArithmetic lib dtype operation c = Inr p \<and>
             instantiated_at p = elemType dtype \<and>
             constructed_with lib c (dimension dtype) p))"
proof -
  have c1: "advertised (elemType dtype) operation \<and> \<not> converts lib (elemType dtype) c \<longrightarrow>
      makeConstArithmetic lib dtype operation c = Inl ObjectConvertError"
  proof (intro impI, elim conjE)
    assume a: "advertised (elemType dtype) operation" "\<not> converts lib (elemType dtype) c"
    from make_advertised [OF a(1), of lib c] a(2)
    show "makeConstArithmetic lib dtype operation c = Inl ObjectConvertError" by simp
  qed
  have c2: "advertised (elemType dtype) operation \<and> converts lib (elemType dtype) c \<longrightarrow>
      (\<exists>p. makeConstArithmetic lib dtype operation c = Inr p \<and>
           instantiated_at p = elemType dtype \<and>
           constructed_with lib c (dimension dtype) p)"
  proof (intro impI, elim conjE)
    assume a: "advertised (elemType dtype) operation" "converts lib (elemType dtype) c"
    from make_advertised [OF a(1), of lib c] a(2)
    show "\<exists>p. makeConstArithmetic lib dtype operation c = Inr p \<and>
        instantiated_at p = elemType dtype \<and> constructed_with lib c (dimension dtype) p"
      by auto
  qed
  show ?thesis by (intro conjI) (fact c1 c2)+
qed

theorem constant_converted_before_construction_witness:
  "advertised (elemType \<lparr>elemType = Scalar Int8, dimension = 4\<rparr>) ''X*K'' \<and>
   \<not> converts example_libraries (elemType \<lparr>elemType = Scalar Int8, dimension = 4\<rparr>)
       (IntObject 300) \<and>
   makeConstArithmetic example_libraries \<lparr>elemType = Scalar Int8, dimension = 4\<rparr> ''X*K''
     (IntObject 300) = Inl ObjectConvertError \<and>
   converts example_libraries (elemType \<lparr>elemType = Scalar Int8, dimension = 4\<rparr>)
     (IntObject (- 100)) \<and>
   (\<exists>p. makeConstArithmetic example_libraries \<lparr>elemType = Scalar Int8, dimension = 4\<rparr> ''X*K''
          (IntObject (- 100)) = Inr p \<and>
        instantiated_at p = Scalar Int8 \<and>
        constructed_with example_libraries (IntObject (- 100)) 4 p)"
proof -
  note T = constant_converted_before_construction [where lib = example_libraries
      and dtype = "\<lparr>elemType = Scalar Int8, dimension = 4\<rparr>" and operation = "''X*K''"]
  let ?int8 = "\<lparr>elemType = Scalar Int8, dimension = 4\<rparr>"
  have a: "advertised (elemType ?int8) ''X*K''"
    by (simp add: advertised_def operations_def)
  have n: "\<not> converts example_libraries (elemType ?int8) (IntObject 300)"
    by (simp add: example_libraries_def example_instance_def)
  have y: "converts example_libraries (elemType ?int8) (IntObject (- 100))"
    by (simp add: example_libraries_def example_instance_def)
  note c1 = T [where c = "IntObject 300", THEN conjunct1, rule_format, OF conjI [OF a n]]
  from T [where c = "IntObject (- 100)", THEN conjunct2, rule_format, OF conjI [OF a y]]
  have c2: "\<exists>p. makeConstArithmetic example_libraries ?int8 ''X*K'' (IntObject (- 100)) = Inr p \<and>
      instantiated_at p = Scalar Int8 \<and>
      constructed_with example_libraries (IntObject (- 100)) 4 p"
    by simp
  from a n y c1 c2 show ?thesis by (intro conjI) blast+
qed

text \<open>
  C8. The claim that a non-zero divisor makes every division of the integer kernels defined
  fails at one pair: the lowest \<open>int32\<close> divided by \<open>-1\<close> has no quotient in \<open>int32\<close>.
\<close>

theorem int32_lowest_by_minus_one:
  "(- 1 :: 32 word) \<noteq> 0 \<and>
   invoke (getXDivKFcn signed_int) [- 2147483648 :: 32 word] (- 1) [0] 1 =
     Inl UndefinedDivision \<and>
   (- 1 :: 32 word) \<noteq> 0 \<and>
   invoke (getKDivXFcn signed_int) [- 1 :: 32 word] (- 2147483648) [0] 1 =
     Inl UndefinedDivision"
  by (simp add: invoke_def getXDivKFcn_def getKDivXFcn_def for_loop.simps lane_def load_def
      store_def signed_int_def int_quot_def)

text \<open>
  C8, amended. Over buffers that hold \<open>num\<close> elements, the kernels of \<open>"X/K"\<close> and \<open>"K/X"\<close> on a
  signed integer type return, with the truncated quotient in every lane below \<open>num\<close>, when no
  lane divides by zero and none divides the lowest value of \<open>int32\<close> or \<open>int64\<close> by \<open>-1\<close>; on
  an unsigned type they return when no lane divides by zero. The kernels check nothing: when
  a lane divides by zero, or divides that lowest value by \<open>-1\<close>, the pass ends in the
  undefined division.
\<close>

theorem division_kernels_defined:
  fixes inp out :: "'a::len word list"
  shows
    "(num \<le> length inp \<and> num \<le> length out \<and> k \<noteq> 0 \<and>
      (\<forall>i<num. \<not> quotient_overflows (inp ! i) k) \<longrightarrow>
        (\<exists>out'. invoke (getXDivKFcn signed_int) inp k out num = Inr out' \<and>
           length out' = length out \<and>
           (\<forall>i<num. out' ! i = word_of_int (sint (inp ! i) sdiv sint k)))) \<and>
     (num \<le> length inp \<and> num \<le> length out \<and>
      (\<forall>i<num. inp ! i \<noteq> 0 \<and> \<not> quotient_overflows k (inp ! i)) \<longrightarrow>
        (\<exists>out'. invoke (getKDivXFcn signed_int) inp k out num = Inr out' \<and>
           length out' = length out \<and>
           (\<forall>i<num. out' ! i = word_of_int (sint k sdiv sint (inp ! i))))) \<and>
     (num \<le> length inp \<and> num \<le> length out \<and> k \<noteq> 0 \<longrightarrow>
        (\<exists>out'. invoke (getXDivKFcn unsigned_int) inp k out num = Inr out' \<and>
           length out' = length out \<and> (\<forall>i<num. out' ! i = inp ! i div k))) \<and>
     (num \<le> length inp \<and> num \<le> length out \<and> (\<forall>i<num. inp ! i \<noteq> 0) \<longrightarrow>
        (\<exists>out'. invoke (getKDivXFcn unsigned_int) inp k out num = Inr out' \<and>
           length out' = length out \<and> (\<forall>i<num. out' ! i = k div inp ! i))) \<and>
     (m < num \<and> num \<le> length inp \<and> num \<le> length out \<and>
      (k = 0 \<or> quotient_overflows (inp ! m) k) \<longrightarrow>
        invoke (getXDivKFcn signed_int) inp k out num = Inl UndefinedDivision) \<and>
     (m < num \<and> num \<le> length inp \<and> num \<le> length out \<and>
      (inp ! m = 0 \<or> quotient_overflows k (inp ! m)) \<longrightarrow>
        invoke (getKDivXFcn signed_int) inp k out num = Inl UndefinedDivision) \<and>
     (m < num \<and> num \<le> length inp \<and> num \<le> length out \<and> k = 0 \<longrightarrow>
        invoke (getXDivKFcn unsigned_int) inp k out num = Inl UndefinedDivision) \<and>
     (m < num \<and> num \<le> length inp \<and> num \<le> length out \<and> inp ! m = 0 \<longrightarrow>
        invoke (getKDivXFcn unsigned_int) inp k out num = Inl UndefinedDivision)"
proof -
  have only: "e = UndefinedDivision" if "int_quot x y = Inl e" for x y :: "'a word" and e
    using that by (auto simp: int_quot_eq split: if_splits)
  have uonly: "e = UndefinedDivision" if "uint_quot x y = Inl e" for x y :: "'a word" and e
    using that by (auto simp: uint_quot_def split: if_splits)
  have c1: "num \<le> length inp \<and> num \<le> length out \<and> k \<noteq> 0 \<and>
      (\<forall>i<num. \<not> quotient_overflows (inp ! i) k) \<longrightarrow>
        (\<exists>out'. invoke (getXDivKFcn signed_int) inp k out num = Inr out' \<and>
           length out' = length out \<and>
           (\<forall>i<num. out' ! i = word_of_int (sint (inp ! i) sdiv sint k)))"
  proof (intro impI, elim conjE)
    assume a: "num \<le> length inp" "num \<le> length out" "k \<noteq> 0"
      "\<forall>i<num. \<not> quotient_overflows (inp ! i) k"
    then have "\<forall>j<num. int_quot (inp ! j) k = Inr (word_of_int (sint (inp ! j) sdiv sint k))"
      by (simp add: int_quot_eq)
    from lane_results [OF a(1,2) this] show "\<exists>out'.
        invoke (getXDivKFcn signed_int) inp k out num = Inr out' \<and> length out' = length out \<and>
        (\<forall>i<num. out' ! i = word_of_int (sint (inp ! i) sdiv sint k))"
      by (simp add: invoke_def getXDivKFcn_def signed_int_ops)
  qed
  have c2: "num \<le> length inp \<and> num \<le> length out \<and>
      (\<forall>i<num. inp ! i \<noteq> 0 \<and> \<not> quotient_overflows k (inp ! i)) \<longrightarrow>
        (\<exists>out'. invoke (getKDivXFcn signed_int) inp k out num = Inr out' \<and>
           length out' = length out \<and>
           (\<forall>i<num. out' ! i = word_of_int (sint k sdiv sint (inp ! i))))"
  proof (intro impI, elim conjE)
    assume a: "num \<le> length inp" "num \<le> length out"
      "\<forall>i<num. inp ! i \<noteq> 0 \<and> \<not> quotient_overflows k (inp ! i)"
    then have "\<forall>j<num. int_quot k (inp ! j) = Inr (word_of_int (sint k sdiv sint (inp ! j)))"
      by (simp add: int_quot_eq)
    from lane_results [OF a(1,2) this] show "\<exists>out'.
        invoke (getKDivXFcn signed_int) inp k out num = Inr out' \<and> length out' = length out \<and>
        (\<forall>i<num. out' ! i = word_of_int (sint k sdiv sint (inp ! i)))"
      by (simp add: invoke_def getKDivXFcn_def signed_int_ops)
  qed
  have c3: "num \<le> length inp \<and> num \<le> length out \<and> k \<noteq> 0 \<longrightarrow>
        (\<exists>out'. invoke (getXDivKFcn unsigned_int) inp k out num = Inr out' \<and>
           length out' = length out \<and> (\<forall>i<num. out' ! i = inp ! i div k))"
  proof (intro impI, elim conjE)
    assume a: "num \<le> length inp" "num \<le> length out" "k \<noteq> 0"
    then have "\<forall>j<num. uint_quot (inp ! j) k = Inr (inp ! j div k)"
      by (simp add: uint_quot_def)
    from lane_results [OF a(1,2) this] show "\<exists>out'.
        invoke (getXDivKFcn unsigned_int) inp k out num = Inr out' \<and>
        length out' = length out \<and> (\<forall>i<num. out' ! i = inp ! i div k)"
      by (simp add: invoke_def getXDivKFcn_def signed_int_ops)
  qed
  have c4: "num \<le> length inp \<and> num \<le> length out \<and> (\<forall>i<num. inp ! i \<noteq> 0) \<longrightarrow>
        (\<exists>out'. invoke (getKDivXFcn unsigned_int) inp k out num = Inr out' \<and>
           length out' = length out \<and> (\<forall>i<num. out' ! i = k div inp ! i))"
  proof (intro impI, elim conjE)
    assume a: "num \<le> length inp" "num \<le> length out" "\<forall>i<num. inp ! i \<noteq> 0"
    then have "\<forall>j<num. uint_quot k (inp ! j) = Inr (k div inp ! j)"
      by (simp add: uint_quot_def)
    from lane_results [OF a(1,2) this] show "\<exists>out'.
        invoke (getKDivXFcn unsigned_int) inp k out num = Inr out' \<and>
        length out' = length out \<and> (\<forall>i<num. out' ! i = k div inp ! i)"
      by (simp add: invoke_def getKDivXFcn_def signed_int_ops)
  qed
  have c5: "m < num \<and> num \<le> length inp \<and> num \<le> length out \<and>
      (k = 0 \<or> quotient_overflows (inp ! m) k) \<longrightarrow>
        invoke (getXDivKFcn signed_int) inp k out num = Inl UndefinedDivision"
  proof (intro impI, elim conjE)
    assume a: "m < num" "num \<le> length inp" "num \<le> length out"
      "k = 0 \<or> quotient_overflows (inp ! m) k"
    then have "int_quot (inp ! m) k = Inl UndefinedDivision" by (simp add: int_quot_eq)
    from for_loop_lane_faults [OF a(1,2,3), of "\<lambda>x. int_quot x k", OF this] only
    show "invoke (getXDivKFcn signed_int) inp k out num = Inl UndefinedDivision"
      by (simp add: invoke_def getXDivKFcn_def signed_int_ops)
  qed
  have c6: "m < num \<and> num \<le> length inp \<and> num \<le> length out \<and>
      (inp ! m = 0 \<or> quotient_overflows k (inp ! m)) \<longrightarrow>
        invoke (getKDivXFcn signed_int) inp k out num = Inl UndefinedDivision"
  proof (intro impI, elim conjE)
    assume a: "m < num" "num \<le> length inp" "num \<le> length out"
      "inp ! m = 0 \<or> quotient_overflows k (inp ! m)"
    then have "int_quot k (inp ! m) = Inl UndefinedDivision" by (simp add: int_quot_eq)
    from for_loop_lane_faults [OF a(1,2,3), of "\<lambda>x. int_quot k x", OF this] only
    show "invoke (getKDivXFcn signed_int) inp k out num = Inl UndefinedDivision"
      by (simp add: invoke_def getKDivXFcn_def signed_int_ops)
  qed
  have c7: "m < num \<and> num \<le> length inp \<and> num \<le> length out \<and> k = 0 \<longrightarrow>
        invoke (getXDivKFcn unsigned_int) inp k out num = Inl UndefinedDivision"
  proof (intro impI, elim conjE)
    assume a: "m < num" "num \<le> length inp" "num \<le> length out" "k = 0"
    then have "uint_quot (inp ! m) k = Inl UndefinedDivision" by (simp add: uint_quot_def)
    from for_loop_lane_faults [OF a(1,2,3), of "\<lambda>x. uint_quot x k", OF this] uonly
    show "invoke (getXDivKFcn unsigned_int) inp k out num = Inl UndefinedDivision"
      by (simp add: invoke_def getXDivKFcn_def signed_int_ops)
  qed
  have c8: "m < num \<and> num \<le> length inp \<and> num \<le> length out \<and> inp ! m = 0 \<longrightarrow>
        invoke (getKDivXFcn unsigned_int) inp k out num = Inl UndefinedDivision"
  proof (intro impI, elim conjE)
    assume a: "m < num" "num \<le> length inp" "num \<le> length out" "inp ! m = 0"
    then have "uint_quot k (inp ! m) = Inl UndefinedDivision" by (simp add: uint_quot_def)
    from for_loop_lane_faults [OF a(1,2,3), of "\<lambda>x. uint_quot k x", OF this] uonly
    show "invoke (getKDivXFcn unsigned_int) inp k out num = Inl UndefinedDivision"
      by (simp add: invoke_def getKDivXFcn_def signed_int_ops)
  qed
  show ?thesis by (intro conjI) (fact c1 c2 c3 c4 c5 c6 c7 c8)+
qed

theorem division_kernels_defined_witness:
  "(\<exists>out'. invoke (getXDivKFcn signed_int) [- 7, 6 :: 32 word] 2 [0, 0] 2 = Inr out' \<and>
      out' ! 0 = - 3 \<and> out' ! 1 = 3) \<and>
   (\<exists>out'. invoke (getKDivXFcn signed_int) [- 1 :: 8 word] (- 128) [0] 1 = Inr out' \<and>
      out' ! 0 = - 128) \<and>
   (\<exists>out'. invoke (getXDivKFcn unsigned_int) [200, 7 :: 8 word] 3 [0, 0] 2 = Inr out' \<and>
      out' ! 0 = 66 \<and> out' ! 1 = 2) \<and>
   (\<exists>out'. invoke (getKDivXFcn unsigned_int) [3 :: 8 word] 200 [0] 1 = Inr out' \<and>
      out' ! 0 = 66) \<and>
   quotient_overflows (- 9223372036854775808 :: 64 word) (- 1) \<and>
   invoke (getXDivKFcn signed_int) [1, - 9223372036854775808 :: 64 word] (- 1) [0, 0] 2 =
     Inl UndefinedDivision \<and>
   invoke (getKDivXFcn signed_int) [0 :: 16 word] 5 [0] 1 = Inl UndefinedDivision \<and>
   invoke (getXDivKFcn unsigned_int) [5 :: 16 word] 0 [0] 1 = Inl UndefinedDivision \<and>
   invoke (getKDivXFcn unsigned_int) [0 :: 16 word] 5 [0] 1 = Inl UndefinedDivision"
proof -
  note D = division_kernels_defined
  have "(2 :: nat) \<le> length [- 7, 6 :: 32 word] \<and> (2 :: nat) \<le> length [0, 0 :: 32 word] \<and>
      (2 :: 32 word) \<noteq> 0 \<and> (\<forall>i<2. \<not> quotient_overflows ([- 7, 6 :: 32 word] ! i) 2)"
    by (simp add: quotient_overflows_def)
  from D [where num = 2 and inp = "[- 7, 6 :: 32 word]" and out = "[0, 0]" and k = 2,
      THEN conjunct1, rule_format, OF this]
  obtain o1 where o1: "invoke (getXDivKFcn signed_int) [- 7, 6 :: 32 word] 2 [0, 0] 2 = Inr o1"
    "\<forall>i<2. o1 ! i = word_of_int (sint ([- 7, 6 :: 32 word] ! i) sdiv sint (2 :: 32 word))"
    by blast
  from o1(2) [rule_format, of 0] o1(2) [rule_format, of 1]
  have v1: "o1 ! 0 = - 3" "o1 ! 1 = 3" by simp_all
  have "(1 :: nat) \<le> length [- 1 :: 8 word] \<and> (1 :: nat) \<le> length [0 :: 8 word] \<and>
      (\<forall>i<1. [- 1 :: 8 word] ! i \<noteq> 0 \<and> \<not> quotient_overflows (- 128) ([- 1 :: 8 word] ! i))"
    by (simp add: quotient_overflows_def)
  from D [where num = 1 and inp = "[- 1 :: 8 word]" and out = "[0]" and k = "- 128",
      THEN conjunct2, THEN conjunct1, rule_format, OF this]
  obtain o2 where o2: "invoke (getKDivXFcn signed_int) [- 1 :: 8 word] (- 128) [0] 1 = Inr o2"
    "\<forall>i<1. o2 ! i = word_of_int (sint (- 128 :: 8 word) sdiv sint ([- 1 :: 8 word] ! i))"
    by blast
  from o2(2) [rule_format, of 0] have v2: "o2 ! 0 = - 128" by simp
  have "(2 :: nat) \<le> length [200, 7 :: 8 word] \<and> (2 :: nat) \<le> length [0, 0 :: 8 word] \<and>
      (3 :: 8 word) \<noteq> 0"
    by simp
  from D [where num = 2 and inp = "[200, 7 :: 8 word]" and out = "[0, 0]" and k = 3,
      THEN conjunct2, THEN conjunct2, THEN conjunct1, rule_format, OF this]
  obtain o3 where o3: "invoke (getXDivKFcn unsigned_int) [200, 7 :: 8 word] 3 [0, 0] 2 = Inr o3"
    "\<forall>i<2. o3 ! i = [200, 7 :: 8 word] ! i div 3"
    by blast
  from o3(2) [rule_format, of 0] o3(2) [rule_format, of 1]
  have v3: "o3 ! 0 = 66" "o3 ! 1 = 2" by simp_all
  have "(1 :: nat) \<le> length [3 :: 8 word] \<and> (1 :: nat) \<le> length [0 :: 8 word] \<and>
      (\<forall>i<1. [3 :: 8 word] ! i \<noteq> 0)"
    by simp
  from D [where num = 1 and inp = "[3 :: 8 word]" and out = "[0]" and k = 200,
      THEN conjunct2, THEN conjunct2, THEN conjunct2, THEN conjunct1, rule_format, OF this]
  obtain o4 where o4: "invoke (getKDivXFcn unsigned_int) [3 :: 8 word] 200 [0] 1 = Inr o4"
    "\<forall>i<1. o4 ! i = 200 div [3 :: 8 word] ! i"
    by blast
  from o4(2) [rule_format, of 0] have v4: "o4 ! 0 = 66" by simp
  have q: "quotient_overflows (- 9223372036854775808 :: 64 word) (- 1)"
    by (simp add: quotient_overflows_def)
  then have "(1 :: nat) < 2 \<and> (2 :: nat) \<le> length [1, - 9223372036854775808 :: 64 word] \<and>
      (2 :: nat) \<le> length [0, 0 :: 64 word] \<and>
      ((- 1 :: 64 word) = 0 \<or>
       quotient_overflows ([1, - 9223372036854775808 :: 64 word] ! 1) (- 1))"
    by simp
  from D [where m = 1 and num = 2 and inp = "[1, - 9223372036854775808 :: 64 word]"
      and out = "[0, 0]" and k = "- 1",
      THEN conjunct2, THEN conjunct2, THEN conjunct2, THEN conjunct2, THEN conjunct1,
      rule_format, OF this]
  have f5: "invoke (getXDivKFcn signed_int) [1, - 9223372036854775808 :: 64 word] (- 1)
      [0, 0] 2 = Inl UndefinedDivision" .
  have "(0 :: nat) < 1 \<and> (1 :: nat) \<le> length [0 :: 16 word] \<and>
      (1 :: nat) \<le> length [0 :: 16 word] \<and>
      ([0 :: 16 word] ! 0 = 0 \<or> quotient_overflows 5 ([0 :: 16 word] ! 0))"
    by simp
  from D [where m = 0 and num = 1 and inp = "[0 :: 16 word]" and out = "[0]" and k = 5,
      THEN conjunct2, THEN conjunct2, THEN conjunct2, THEN conjunct2, THEN conjunct2,
      THEN conjunct1, rule_format, OF this]
  have f6: "invoke (getKDivXFcn signed_int) [0 :: 16 word] 5 [0] 1 = Inl UndefinedDivision" .
  have "(0 :: nat) < 1 \<and> (1 :: nat) \<le> length [5 :: 16 word] \<and>
      (1 :: nat) \<le> length [0 :: 16 word] \<and> (0 :: 16 word) = 0"
    by simp
  from D [where m = 0 and num = 1 and inp = "[5 :: 16 word]" and out = "[0]" and k = 0,
      THEN conjunct2, THEN conjunct2, THEN conjunct2, THEN conjunct2, THEN conjunct2,
      THEN conjunct2, THEN conjunct1, rule_format, OF this]
  have f7: "invoke (getXDivKFcn unsigned_int) [5 :: 16 word] 0 [0] 1 = Inl UndefinedDivision" .
  have "(0 :: nat) < 1 \<and> (1 :: nat) \<le> length [0 :: 16 word] \<and>
      (1 :: nat) \<le> length [0 :: 16 word] \<and> [0 :: 16 word] ! 0 = 0"
    by simp
  from D [where m = 0 and num = 1 and inp = "[0 :: 16 word]" and out = "[0]" and k = 5,
      THEN conjunct2, THEN conjunct2, THEN conjunct2, THEN conjunct2, THEN conjunct2,
      THEN conjunct2, THEN conjunct2, rule_format, OF this]
  have f8: "invoke (getKDivXFcn unsigned_int) [0 :: 16 word] 5 [0] 1 = Inl UndefinedDivision" .
  from o1(1) v1 o2(1) v2 o3(1) v3 o4(1) v4 q f5 f6 f7 f8 show ?thesis by blast
qed

end
